theory Spec2Isabelle
  imports Complex_Main "HOL-Library.Log_Nat" "HOL-Library.Sublist"
begin

section \<open>Python values\<close>

text \<open>
  The values that travel through the solver are what \<^verbatim>\<open>json.loads\<close> produces, plus the
  strings and integers the solver builds itself. A dict is an association list read with
  \<open>map_of\<close>. A Python \<^verbatim>\<open>str\<close> is a list of characters with code points below 256; a float
  is given by its value, a rational number.
\<close>

datatype pyval =
    PNone
  | PBool bool
  | PInt int
  | PFloat rat
  | PStr string
  | PList "pyval list"
  | PDict "(string \<times> pyval) list"

type_synonym pydict = "(string \<times> pyval) list"

text \<open>The text of a raised exception, \<^verbatim>\<open>str(e)\<close>.\<close>

type_synonym exn = string

text \<open>Truth value of a Python object, as \<^verbatim>\<open>if x:\<close> and \<^verbatim>\<open>not x\<close> test it.\<close>

fun truthy :: "pyval \<Rightarrow> bool" where
  "truthy PNone = False"
| "truthy (PBool b) = b"
| "truthy (PInt i) = (i \<noteq> 0)"
| "truthy (PFloat r) = (r \<noteq> 0)"
| "truthy (PStr s) = (s \<noteq> [])"
| "truthy (PList xs) = (xs \<noteq> [])"
| "truthy (PDict d) = (d \<noteq> [])"

fun type_name :: "pyval \<Rightarrow> string" where
  "type_name PNone = ''NoneType''"
| "type_name (PBool b) = ''bool''"
| "type_name (PInt i) = ''int''"
| "type_name (PFloat r) = ''float''"
| "type_name (PStr s) = ''str''"
| "type_name (PList xs) = ''list''"
| "type_name (PDict d) = ''dict''"

definition attribute_error :: "pyval \<Rightarrow> string \<Rightarrow> exn" where
  "attribute_error v a =
     [CHR 0x27] @ type_name v @ [CHR 0x27] @ '' object has no attribute '' @ [CHR 0x27] @ a @ [CHR 0x27]"

text \<open>\<^verbatim>\<open>d.get(k)\<close> and \<^verbatim>\<open>k in d\<close> on a dict.\<close>

definition dict_get :: "pydict \<Rightarrow> string \<Rightarrow> pyval" where
  "dict_get d k = (case map_of d k of None \<Rightarrow> PNone | Some v \<Rightarrow> v)"

definition dict_has :: "pydict \<Rightarrow> string \<Rightarrow> bool" where
  "dict_has d k = (map_of d k \<noteq> None)"

text \<open>\<^verbatim>\<open>x.get(k)\<close> on any value: only a dict has the method.\<close>

definition py_get :: "pyval \<Rightarrow> string \<Rightarrow> exn + pyval" where
  "py_get v k = (case v of PDict d \<Rightarrow> Inr (dict_get d k) | _ \<Rightarrow> Inl (attribute_error v ''get''))"

text \<open>\<^verbatim>\<open>x == True\<close>: booleans compare equal to the numbers 1 and 1.0.\<close>

fun equals_True :: "pyval \<Rightarrow> bool" where
  "equals_True (PBool b) = b"
| "equals_True (PInt i) = (i = 1)"
| "equals_True (PFloat r) = (r = 1)"
| "equals_True _ = False"

section \<open>Strings\<close>

text \<open>\<^verbatim>\<open>str.isspace\<close> on the code points below 256, and \<^verbatim>\<open>str.strip()\<close>.\<close>

definition py_isspace :: "char \<Rightarrow> bool" where
  "py_isspace c =
     (let n = (of_char c :: nat)
      in (9 \<le> n \<and> n \<le> 13) \<or> (28 \<le> n \<and> n \<le> 32) \<or> n = 133 \<or> n = 160)"

definition py_strip :: "string \<Rightarrow> string" where
  "py_strip s = rev (dropWhile py_isspace (rev (dropWhile py_isspace s)))"

definition is_digit :: "char \<Rightarrow> bool" where
  "is_digit c = (let n = (of_char c :: nat) in 48 \<le> n \<and> n \<le> 57)"

definition digit_val :: "char \<Rightarrow> nat" where
  "digit_val c = of_char c - 48"

definition digits_val :: "string \<Rightarrow> nat" where
  "digits_val s = foldl (\<lambda>acc c. 10 * acc + digit_val c) 0 s"

text \<open>\<^verbatim>\<open>s.split(c)\<close> for a one-character separator: never the empty list.\<close>

fun py_split :: "char \<Rightarrow> string \<Rightarrow> string list" where
  "py_split c [] = [[]]"
| "py_split c (x # xs) =
     (if x = c then [] # py_split c xs
      else (case py_split c xs of [] \<Rightarrow> [[x]] | p # ps \<Rightarrow> (x # p) # ps))"

text \<open>\<^verbatim>\<open>str(n)\<close> for a natural number.\<close>

fun show_nat :: "nat \<Rightarrow> string" where
  "show_nat n =
     (if n < 10 then [char_of (48 + n)] else show_nat (n div 10) @ [char_of (48 + n mod 10)])"

declare show_nat.simps [simp del]

section \<open>Floats: \<^verbatim>\<open>float(s)\<close> and \<^verbatim>\<open>int(x)\<close>\<close>

text \<open>
  A non-negative double is \<open>Finite m p\<close>, the number \<open>m * 2 ^ p\<close>, or \<open>Infinity\<close>.
  \<open>round_to_double n d\<close> is the double nearest to the fraction \<open>n / d\<close>, ties to the even
  mantissa, with 53 bits of mantissa, the smallest exponent \<open>- 1074\<close> and overflow to
  infinity from \<open>2 ^ 1024\<close> on: the conversion \<^verbatim>\<open>float\<close> applies to a decimal literal.
\<close>

datatype pyfloat = Finite nat int | Infinity

definition bit_length :: "nat \<Rightarrow> nat" where
  "bit_length n = floorlog 2 n"

definition binary_exponent :: "nat \<Rightarrow> nat \<Rightarrow> int" where
  "binary_exponent n d =
     (let k = int (bit_length n) - int (bit_length d)
      in if d * 2 ^ nat k \<le> n * 2 ^ nat (- k) then k else k - 1)"

definition round_half_even :: "nat \<Rightarrow> nat \<Rightarrow> nat" where
  "round_half_even n d =
     (let f = n div d; r = n mod d
      in if 2 * r < d then f else if d < 2 * r then f + 1 else if even f then f else f + 1)"

definition round_to_double :: "nat \<Rightarrow> nat \<Rightarrow> pyfloat" where
  "round_to_double n d =
     (if n = 0 then Finite 0 0
      else let p = max (binary_exponent n d - 52) (- 1074);
               m = round_half_even (n * 2 ^ nat (- p)) (d * 2 ^ nat p)
           in if 0 \<le> p \<and> 2 ^ 1024 \<le> m * 2 ^ nat p then Infinity else Finite m p)"

text \<open>
  \<^verbatim>\<open>float(s)\<close> for a string over the digits and the dot, which is all that the call site
  passes: \<open>None\<close> is the \<^verbatim>\<open>ValueError\<close> of a string that is no literal (no digit, or
  more than one dot).
\<close>

definition float_of_cleaned :: "string \<Rightarrow> pyfloat option" where
  "float_of_cleaned s =
     (let ip = takeWhile is_digit s
      in case dropWhile is_digit s of
           [] \<Rightarrow> if ip = [] then None else Some (round_to_double (digits_val ip) 1)
         | c # fp \<Rightarrow>
             if c = CHR ''.'' \<and> list_all is_digit fp \<and> (ip \<noteq> [] \<or> fp \<noteq> [])
             then Some (round_to_double (digits_val (ip @ fp)) (10 ^ length fp))
             else None)"

text \<open>\<^verbatim>\<open>int(x)\<close> truncates; \<open>None\<close> is the \<^verbatim>\<open>OverflowError\<close> of an infinite float.\<close>

definition trunc_float :: "nat \<Rightarrow> int \<Rightarrow> int" where
  "trunc_float m p = (if 0 \<le> p then int (m * 2 ^ nat p) else int (m div 2 ^ nat (- p)))"

fun int_of_float :: "pyfloat \<Rightarrow> int option" where
  "int_of_float (Finite m p) = Some (trunc_float m p)"
| "int_of_float Infinity = None"

text \<open>
  \<^verbatim>\<open>a - b\<close> on two finite doubles, given by their values: the sign of the exact difference
  and the double nearest to its magnitude. \<^verbatim>\<open>x > k\<close> compares such a float with an
  integer that is not negative.
\<close>

definition float_sub :: "rat \<Rightarrow> rat \<Rightarrow> bool \<times> pyfloat" where
  "float_sub a b =
     (case quotient_of (a - b) of
        (n, d) \<Rightarrow> (n < 0, round_to_double (nat \<bar>n\<bar>) (nat d)))"

fun float_gt :: "bool \<times> pyfloat \<Rightarrow> nat \<Rightarrow> bool" where
  "float_gt (negative, Infinity) k = (\<not> negative)"
| "float_gt (negative, Finite m p) k =
     (\<not> negative \<and> (if 0 \<le> p then k < m * 2 ^ nat p else k * 2 ^ nat (- p) < m))"

section \<open>The Answer Resolver's post-processing (planner.py, lines 131 to 144)\<close>

text \<open>
  \<open>postprocess_answer content\<close> is what \<^verbatim>\<open>get_answer_from_llm\<close> does with the completion
  text: \<^verbatim>\<open>strip()\<close>, the sentinel test, \<^verbatim>\<open>re.sub(r"[^0-9.]", "", answer)\<close> and
  \<^verbatim>\<open>int(float(cleaned_answer))\<close>. \<open>Inl\<close> is an exception that leaves these lines: the
  \<^verbatim>\<open>OverflowError\<close> of \<^verbatim>\<open>int\<close>, which \<^verbatim>\<open>except ValueError\<close> does not catch.
\<close>

definition keep_digits_dots :: "string \<Rightarrow> string" where
  "keep_digits_dots s = filter (\<lambda>c. is_digit c \<or> c = CHR ''.'') s"

definition postprocess_answer :: "string \<Rightarrow> exn + pyval" where
  "postprocess_answer content =
     (let answer = py_strip content
      in if answer = [] \<or> answer = ''ANSWER_NOT_FOUND'' then Inr (PStr ''ANSWER_NOT_FOUND'')
         else let cleaned_answer = keep_digits_dots answer
              in if cleaned_answer \<noteq> []
                 then (case float_of_cleaned cleaned_answer of
                         None \<Rightarrow> Inr (PStr answer)
                       | Some x \<Rightarrow>
                           (case int_of_float x of
                              None \<Rightarrow> Inl ''cannot convert float infinity to integer''
                            | Some i \<Rightarrow> Inr (PInt i)))
                 else Inr (PStr answer))"

section \<open>The outside world\<close>

text \<open>
  Everything the solver reaches outside itself is a field of \<open>env\<close>: the clock, the
  headless browser, the completion service, the file system, the HTTP client and the
  library functions it imports. A capability takes the state of the world \<open>'w\<close> and
  returns its answer with the next state; \<open>Inl\<close> (or \<open>Some\<close> where there is no value to
  return) is a raised exception.
\<close>

datatype llm_request =
    PlanRequest string
  | AnswerRequest pyval string

text \<open>
  One run of the browser in \<^verbatim>\<open>scrape_page_content\<close>: \<open>Escaped\<close> is an exception outside
  the function's \<^verbatim>\<open>try\<close> (or in its handler), \<open>Failed\<close> one inside it, \<open>Content\<close> the markup.
\<close>

datatype render_result = Escaped exn | Failed exn | Content string

record http_response =
  response_status :: nat
  response_content :: string

record 'w env =
  time_now :: "'w \<Rightarrow> rat \<times> 'w"
  page_render :: "pyval \<Rightarrow> 'w \<Rightarrow> render_result \<times> 'w"
  chat_completion :: "llm_request \<Rightarrow> 'w \<Rightarrow> (exn + pyval) \<times> 'w"
  json_loads :: "string \<Rightarrow> exn + pyval"
  py_repr :: "pyval \<Rightarrow> string"
  urljoin_lib :: "pyval \<Rightarrow> pyval \<Rightarrow> exn + string"
  makedirs :: "string \<Rightarrow> 'w \<Rightarrow> exn option \<times> 'w"
  http_get :: "string \<Rightarrow> 'w \<Rightarrow> (exn + http_response) \<times> 'w"
  write_file :: "string \<Rightarrow> string \<Rightarrow> 'w \<Rightarrow> exn option \<times> 'w"
  pdf_pages :: "string \<Rightarrow> 'w \<Rightarrow> (exn + string list) \<times> 'w"
  read_csv :: "string \<Rightarrow> 'w \<Rightarrow> (exn + string) \<times> 'w"
  post_json :: "pyval \<Rightarrow> pyval \<Rightarrow> 'w \<Rightarrow> (exn + pyval) \<times> 'w"

text \<open>
  The lines the agent loop prints, with the values they show. \<open>New_task\<close> is the
  banner of a round; \<open>Unexpected_error\<close> is the pair of lines of the outer handler.
\<close>

datatype message =
    Nearing_timeout
  | New_task
  | Processing_url pyval
  | Failed_to_scrape string
  | Failed_to_get_plan pyval
  | Plan_received pyval
  | Data_url_found pyval
  | Failed_to_process_file exn
  | Final_answer pyval
  | Submitting_to pyval
  | Answer_correct
  | Quiz_complete
  | Answer_wrong pyval
  | Quiz_ended_wrong
  | Unexpected_error exn
  | Quiz_run_finished

text \<open>What a run does, in order: the calls of its components, its requests, its prints.\<close>

datatype event =
    Call_scrape_page_content pyval
  | Call_get_plan_from_llm string
  | Call_download_file pyval string
  | Call_get_text_from_pdf string
  | Call_get_text_from_csv string
  | Call_get_answer_from_llm pyval string
  | LLM_request llm_request
  | Http_get string
  | File_write string string
  | Post_submission pyval pyval
  | Print message

record 'w st =
  world :: 'w
  trace :: "event list"

definition emit :: "event \<Rightarrow> 'w st \<Rightarrow> 'w st" where
  "emit e s = s\<lparr>trace := trace s @ [e]\<rparr>"

definition ask :: "('w \<Rightarrow> 'a \<times> 'w) \<Rightarrow> 'w st \<Rightarrow> 'a \<times> 'w st" where
  "ask f s = (case f (world s) of (a, w) \<Rightarrow> (a, s\<lparr>world := w\<rparr>))"

section \<open>tools.py\<close>

definition scrape_page_content :: "'w env \<Rightarrow> pyval \<Rightarrow> 'w st \<Rightarrow> (exn + string) \<times> 'w st" where
  "scrape_page_content env url s =
     (case ask (page_render env url) (emit (Call_scrape_page_content url) s) of
        (Escaped e, s1) \<Rightarrow> (Inl e, s1)
      | (Failed e, s1) \<Rightarrow> (Inr (''Error: Could not scrape page. '' @ e), s1)
      | (Content c, s1) \<Rightarrow> (Inr c, s1))"

text \<open>
  \<^verbatim>\<open>url.split('/')[-1].split('?')[0]\<close>, then \<^verbatim>\<open>data_\<close> and the part after the last dash for
  a name without a dot.
\<close>

definition download_filename :: "string \<Rightarrow> string" where
  "download_filename url =
     (let filename = hd (py_split CHR ''?'' (last (py_split CHR ''/'' url)))
      in if CHR ''.'' \<notin> set filename
         then ''data_'' @ last (py_split CHR ''-'' filename)
         else filename)"

definition download_file ::
  "'w env \<Rightarrow> pyval \<Rightarrow> string \<Rightarrow> 'w st \<Rightarrow> (exn + string) \<times> 'w st" where
  "download_file env url save_path s =
     (case ask (makedirs env save_path) (emit (Call_download_file url save_path) s) of
        (Some e, s1) \<Rightarrow> (Inl e, s1)
      | (None, s1) \<Rightarrow>
          (case url of
             PStr u \<Rightarrow>
               (let filepath = save_path @ ''/'' @ download_filename u
                in case ask (http_get env u) (emit (Http_get u) s1) of
                     (Inl e, s2) \<Rightarrow> (Inl e, s2)
                   | (Inr response, s2) \<Rightarrow>
                       (case ask (write_file env filepath (response_content response))
                               (emit (File_write filepath (response_content response)) s2) of
                          (Some e, s3) \<Rightarrow> (Inl e, s3)
                        | (None, s3) \<Rightarrow> (Inr filepath, s3)))
           | _ \<Rightarrow> (Inl (attribute_error url ''split''), s1)))"

definition pdf_page_text :: "nat \<times> string \<Rightarrow> string" where
  "pdf_page_text ip =
     ''--- PDF Page '' @ show_nat (fst ip + 1) @ '' ---'' @ [CHR 0x0A] @ snd ip @ [CHR 0x0A, CHR 0x0A]"

definition get_text_from_pdf :: "'w env \<Rightarrow> string \<Rightarrow> 'w st \<Rightarrow> (exn + string) \<times> 'w st" where
  "get_text_from_pdf env file_path s =
     (case ask (pdf_pages env file_path) (emit (Call_get_text_from_pdf file_path) s) of
        (Inl e, s1) \<Rightarrow> (Inl e, s1)
      | (Inr pages, s1) \<Rightarrow> (Inr (concat (map pdf_page_text (enumerate 0 pages))), s1))"

definition get_text_from_csv :: "'w env \<Rightarrow> string \<Rightarrow> 'w st \<Rightarrow> (exn + string) \<times> 'w st" where
  "get_text_from_csv env file_path s =
     ask (read_csv env file_path) (emit (Call_get_text_from_csv file_path) s)"

section \<open>planner.py\<close>

definition error_plan :: "exn \<Rightarrow> pydict" where
  "error_plan e = [(''error'', PStr e)]"

text \<open>\<^verbatim>\<open>json.loads(x)\<close>: the library parses a string and refuses any other JSON value.\<close>

definition loads :: "'w env \<Rightarrow> pyval \<Rightarrow> exn + pyval" where
  "loads env x =
     (case x of
        PStr t \<Rightarrow> json_loads env t
      | _ \<Rightarrow> Inl (''the JSON object must be str, bytes or bytearray, not '' @ type_name x))"

text \<open>
  The completion request of either resolver, up to the \<^verbatim>\<open>content\<close> of the first choice:
  \<open>Inl\<close> is any exception of the POST, of \<^verbatim>\<open>raise_for_status\<close>, of the response's JSON
  or of the indexing.
\<close>

definition chat :: "'w env \<Rightarrow> llm_request \<Rightarrow> 'w st \<Rightarrow> (exn + pyval) \<times> 'w st" where
  "chat env r s = ask (chat_completion env r) (emit (LLM_request r) s)"

definition get_plan_from_llm :: "'w env \<Rightarrow> string \<Rightarrow> 'w st \<Rightarrow> pydict \<times> 'w st" where
  "get_plan_from_llm env page_context s =
     (case chat env (PlanRequest page_context) (emit (Call_get_plan_from_llm page_context) s) of
        (Inl e, s1) \<Rightarrow> (error_plan e, s1)
      | (Inr llm_response_str, s1) \<Rightarrow>
          (case loads env llm_response_str of
             Inl e \<Rightarrow> (error_plan e, s1)
           | Inr plan_dict \<Rightarrow>
               (case plan_dict of
                  PDict d \<Rightarrow>
                    if \<not> truthy (dict_get d ''submit_url'')
                    then (error_plan (''LLM failed to find a submit_url. Plan: ''
                                       @ py_repr env plan_dict), s1)
                    else (d, s1)
                | _ \<Rightarrow> (error_plan (attribute_error plan_dict ''get''), s1))))"

text \<open>
  \<^verbatim>\<open>question[:30]\<close>, evaluated for the first print and before the \<^verbatim>\<open>try\<close>: a string or a
  list can be sliced, any other value raises (for a dict, with the text of Python 3.11).
\<close>

fun sliceable :: "pyval \<Rightarrow> bool" where
  "sliceable (PStr t) = True"
| "sliceable (PList xs) = True"
| "sliceable _ = False"

definition slice_error :: "pyval \<Rightarrow> exn" where
  "slice_error v =
     (case v of
        PDict d \<Rightarrow> ''unhashable type: '' @ [CHR 0x27] @ ''slice'' @ [CHR 0x27]
      | _ \<Rightarrow> [CHR 0x27] @ type_name v @ [CHR 0x27] @ '' object is not subscriptable'')"

definition get_answer_from_llm ::
  "'w env \<Rightarrow> pyval \<Rightarrow> string \<Rightarrow> 'w st \<Rightarrow> (exn + pyval) \<times> 'w st" where
  "get_answer_from_llm env question data_context s =
     (let s0 = emit (Call_get_answer_from_llm question data_context) s
      in if \<not> sliceable question then (Inl (slice_error question), s0)
         else case chat env (AnswerRequest question data_context) s0 of
                (Inl e, s1) \<Rightarrow> (Inr (PStr (''Error: '' @ e)), s1)
              | (Inr content, s1) \<Rightarrow>
                  (case content of
                     PStr raw \<Rightarrow>
                       (case postprocess_answer raw of
                          Inl e \<Rightarrow> (Inr (PStr (''Error: '' @ e)), s1)
                        | Inr answer \<Rightarrow> (Inr answer, s1))
                   | _ \<Rightarrow> (Inr (PStr (''Error: '' @ attribute_error content ''strip'')), s1)))"

section \<open>agent.py\<close>

text \<open>Lines 56 to 59: a truthy URL of the plan is joined with the round's URL.\<close>

definition resolve_url :: "'w env \<Rightarrow> pyval \<Rightarrow> pyval \<Rightarrow> exn + pyval" where
  "resolve_url env current_url u =
     (if truthy u
      then (case urljoin_lib env current_url u of Inl e \<Rightarrow> Inl e | Inr joined \<Rightarrow> Inr (PStr joined))
      else Inr u)"

text \<open>Lines 63 to 84: the data context, and the inner \<^verbatim>\<open>try\<close> around download and extraction.\<close>

definition processing_failed :: "exn \<Rightarrow> 'w st \<Rightarrow> string \<times> 'w st" where
  "processing_failed e s = (''Error processing file: '' @ e, emit (Print (Failed_to_process_file e)) s)"

definition acquire_data :: "'w env \<Rightarrow> pyval \<Rightarrow> string \<Rightarrow> 'w st \<Rightarrow> string \<times> 'w st" where
  "acquire_data env data_url page_context s =
     (if truthy data_url
      then (case download_file env data_url ''temp_data'' (emit (Print (Data_url_found data_url)) s) of
              (Inl e, s1) \<Rightarrow> processing_failed e s1
            | (Inr file_path, s1) \<Rightarrow>
                if suffix ''.pdf'' file_path
                then (case get_text_from_pdf env file_path s1 of
                        (Inl e, s2) \<Rightarrow> processing_failed e s2
                      | (Inr text, s2) \<Rightarrow> (text, s2))
                else if suffix ''.csv'' file_path
                then (case get_text_from_csv env file_path s1 of
                        (Inl e, s2) \<Rightarrow> processing_failed e s2
                      | (Inr text, s2) \<Rightarrow> (text, s2))
                else (''File downloaded to: '' @ file_path, s1))
      else (page_context, s))"

text \<open>
  Lines 90 to 119: the submission, and the URL that the response assigns to
  \<^verbatim>\<open>current_url\<close>.
\<close>

definition submission_payload :: "string \<Rightarrow> string \<Rightarrow> pyval \<Rightarrow> pyval \<Rightarrow> pyval" where
  "submission_payload email secret current_url final_answer =
     PDict [(''email'', PStr email), (''secret'', PStr secret), (''url'', current_url),
            (''answer'', final_answer)]"

definition process_result :: "pyval \<Rightarrow> 'w st \<Rightarrow> (exn + pyval) \<times> 'w st" where
  "process_result result_data s =
     (case result_data of
        PDict d \<Rightarrow>
          if equals_True (dict_get d ''correct'')
          then (let s1 = emit (Print Answer_correct) s; next_url = dict_get d ''url''
                in (Inr next_url, if \<not> truthy next_url then emit (Print Quiz_complete) s1 else s1))
          else (let s1 = emit (Print (Answer_wrong (dict_get d ''reason''))) s;
                    next_url = dict_get d ''url''
                in (Inr next_url, if \<not> truthy next_url then emit (Print Quiz_ended_wrong) s1 else s1))
      | _ \<Rightarrow> (Inl (attribute_error result_data ''get''), s))"

definition submit_answer ::
  "'w env \<Rightarrow> string \<Rightarrow> string \<Rightarrow> pyval \<Rightarrow> pyval \<Rightarrow> pyval \<Rightarrow> 'w st \<Rightarrow> (exn + pyval) \<times> 'w st" where
  "submit_answer env email secret current_url submit_url final_answer s =
     (let payload = submission_payload email secret current_url final_answer
      in case ask (post_json env submit_url payload)
                  (emit (Post_submission submit_url payload) (emit (Print (Submitting_to submit_url)) s)) of
           (Inl e, s1) \<Rightarrow> (Inl e, s1)
         | (Inr result_data, s1) \<Rightarrow> process_result result_data s1)"

text \<open>
  How one pass through the loop body ends: \<open>Break\<close> leaves the loop, \<open>Next u\<close> goes back
  to the loop test with \<^verbatim>\<open>current_url = u\<close>.
\<close>

datatype loop_ctl = Break | Next pyval

text \<open>Lines 51 to 119: the round after a plan without an error.\<close>

definition execute_plan ::
  "'w env \<Rightarrow> string \<Rightarrow> string \<Rightarrow> pyval \<Rightarrow> string \<Rightarrow> pydict \<Rightarrow> 'w st \<Rightarrow> (exn + loop_ctl) \<times> 'w st" where
  "execute_plan env email secret current_url page_context plan s =
     (let question = dict_get plan ''question''
      in case resolve_url env current_url (dict_get plan ''data_url'') of
           Inl e \<Rightarrow> (Inl e, s)
         | Inr data_url \<Rightarrow>
             (case resolve_url env current_url (dict_get plan ''submit_url'') of
                Inl e \<Rightarrow> (Inl e, s)
              | Inr submit_url \<Rightarrow>
                  (case acquire_data env data_url page_context s of
                     (data_context, s1) \<Rightarrow>
                       (case get_answer_from_llm env question data_context s1 of
                          (Inl e, s2) \<Rightarrow> (Inl e, s2)
                        | (Inr final_answer, s2) \<Rightarrow>
                            (case submit_answer env email secret current_url submit_url final_answer
                                    (emit (Print (Final_answer final_answer)) s2) of
                               (Inl e, s3) \<Rightarrow> (Inl e, s3)
                             | (Inr next_url, s3) \<Rightarrow> (Inr (Next next_url), s3))))))"

text \<open>Lines 37 to 119: the body of the outer \<^verbatim>\<open>try\<close>.\<close>

definition round_body ::
  "'w env \<Rightarrow> string \<Rightarrow> string \<Rightarrow> pyval \<Rightarrow> 'w st \<Rightarrow> (exn + loop_ctl) \<times> 'w st" where
  "round_body env email secret current_url s =
     (case scrape_page_content env current_url s of
        (Inl e, s1) \<Rightarrow> (Inl e, s1)
      | (Inr page_context, s1) \<Rightarrow>
          if prefix ''Error:'' page_context
          then (Inr Break, emit (Print (Failed_to_scrape page_context)) s1)
          else (case get_plan_from_llm env page_context s1 of
                  (plan, s2) \<Rightarrow>
                    if dict_has plan ''error''
                    then (Inr Break, emit (Print (Failed_to_get_plan (dict_get plan ''error''))) s2)
                    else execute_plan env email secret current_url page_context plan
                           (emit (Print (Plan_received (dict_get plan ''question''))) s2)))"

text \<open>
  Lines 28 to 124: one pass through the body of the \<^verbatim>\<open>while\<close> loop. The clock readings
  are doubles, and the test of line 29 is made on their difference as a double.
\<close>

definition loop_iteration ::
  "'w env \<Rightarrow> rat \<Rightarrow> string \<Rightarrow> string \<Rightarrow> pyval \<Rightarrow> 'w st \<Rightarrow> loop_ctl \<times> 'w st" where
  "loop_iteration env start_time email secret current_url s =
     (case ask (time_now env) s of
        (now, s1) \<Rightarrow>
          if float_gt (float_sub now start_time) 170
          then (Break, emit (Print Nearing_timeout) s1)
          else (case round_body env email secret current_url
                       (emit (Print (Processing_url current_url)) (emit (Print New_task) s1)) of
                  (Inl e, s2) \<Rightarrow> (Next PNone, emit (Print (Unexpected_error e)) s2)
                | (Inr ctl, s2) \<Rightarrow> (ctl, s2)))"

text \<open>
  The loop \<^verbatim>\<open>while current_url:\<close>. Nothing bounds the number of rounds but the clock of
  the outside world, so the loop is a partial function: \<open>None\<close> is a run that never ends.
\<close>

partial_function (option) quiz_loop ::
  "'w env \<Rightarrow> rat \<Rightarrow> string \<Rightarrow> string \<Rightarrow> pyval \<Rightarrow> 'w st \<Rightarrow> 'w st option" where
  "quiz_loop env start_time email secret current_url s =
     (if \<not> truthy current_url then Some s
      else case loop_iteration env start_time email secret current_url s of
             (Break, s1) \<Rightarrow> Some s1
           | (Next u, s1) \<Rightarrow> quiz_loop env start_time email secret u s1)"

definition run_quiz_solver_background ::
  "'w env \<Rightarrow> string \<Rightarrow> string \<Rightarrow> string \<Rightarrow> 'w st \<Rightarrow> 'w st option" where
  "run_quiz_solver_background env email secret initial_url s =
     (case ask (time_now env) s of
        (start_time, s1) \<Rightarrow>
          map_option (emit (Print Quiz_run_finished))
            (quiz_loop env start_time email secret (PStr initial_url) s1))"

section \<open>URL joining\<close>

text \<open>
  Modelled from the spec: \<^verbatim>\<open>urljoin\<close> is the function of Python's standard library
  (\<^verbatim>\<open>urllib.parse\<close>) that agent.py imports; it is not among the sources. The spec describes
  it as standard base and relative URL joining, in which an absolute URL passes through
  unchanged and a relative one resolves against the scheme, host and path of the base.
  The definitions of this section follow these words: a reference that has a scheme is
  returned as it is, and any other reference is resolved against the base as RFC 3986,
  section 5.2, prescribes (split into components, merge the paths, remove the dot
  segments, put the components together).
\<close>

definition is_alpha :: "char \<Rightarrow> bool" where
  "is_alpha c =
     (let n = (of_char c :: nat) in (65 \<le> n \<and> n \<le> 90) \<or> (97 \<le> n \<and> n \<le> 122))"

definition is_scheme_char :: "char \<Rightarrow> bool" where
  "is_scheme_char c = (is_alpha c \<or> is_digit c \<or> c = CHR ''+'' \<or> c = CHR ''-'' \<or> c = CHR ''.'')"

definition split_scheme :: "string \<Rightarrow> (string \<times> string) option" where
  "split_scheme u =
     (let name = takeWhile (\<lambda>c. c \<noteq> CHR '':'') u; rest = dropWhile (\<lambda>c. c \<noteq> CHR '':'') u
      in case name of
           [] \<Rightarrow> None
         | c # cs \<Rightarrow> if rest \<noteq> [] \<and> is_alpha c \<and> list_all is_scheme_char cs
                     then Some (name, tl rest) else None)"

record url_ref =
  ref_authority :: "string option"
  ref_path :: string
  ref_query :: "string option"
  ref_fragment :: "string option"

definition cut :: "char \<Rightarrow> string \<Rightarrow> string \<times> string option" where
  "cut c t =
     (case dropWhile (\<lambda>x. x \<noteq> c) t of
        [] \<Rightarrow> (t, None)
      | x # rest \<Rightarrow> (takeWhile (\<lambda>x. x \<noteq> c) t, Some rest))"

definition parse_ref :: "string \<Rightarrow> url_ref" where
  "parse_ref t =
     (case cut CHR ''#'' t of
        (t1, fragment) \<Rightarrow>
          (case cut CHR ''?'' t1 of
             (t2, query) \<Rightarrow>
               if prefix ''//'' t2
               then \<lparr>ref_authority = Some (takeWhile (\<lambda>x. x \<noteq> CHR ''/'') (drop 2 t2)),
                     ref_path = dropWhile (\<lambda>x. x \<noteq> CHR ''/'') (drop 2 t2),
                     ref_query = query, ref_fragment = fragment\<rparr>
               else \<lparr>ref_authority = None, ref_path = t2,
                     ref_query = query, ref_fragment = fragment\<rparr>))"

definition with_mark :: "string \<Rightarrow> string option \<Rightarrow> string" where
  "with_mark m x = (case x of None \<Rightarrow> [] | Some t \<Rightarrow> m @ t)"

definition unparse_ref :: "url_ref \<Rightarrow> string" where
  "unparse_ref r =
     with_mark ''//'' (ref_authority r) @ ref_path r @ with_mark ''?'' (ref_query r)
       @ with_mark ''#'' (ref_fragment r)"

fun join_segments :: "string list \<Rightarrow> string" where
  "join_segments [] = []"
| "join_segments [x] = x"
| "join_segments (x # y # ys) = x @ ''/'' @ join_segments (y # ys)"

fun resolve_dots :: "string list \<Rightarrow> string list \<Rightarrow> string list" where
  "resolve_dots out [] = out"
| "resolve_dots out (seg # segs) =
     (if seg = ''..'' then resolve_dots (butlast out) (if segs = [] then [[]] else segs)
      else if seg = ''.'' then resolve_dots out (if segs = [] then [[]] else segs)
      else resolve_dots (out @ [seg]) segs)"

definition remove_dot_segments :: "string \<Rightarrow> string" where
  "remove_dot_segments p =
     (if prefix ''/'' p then ''/'' @ join_segments (resolve_dots [] (py_split CHR ''/'' (tl p)))
      else join_segments (resolve_dots [] (py_split CHR ''/'' p)))"

definition merge_paths :: "url_ref \<Rightarrow> string \<Rightarrow> string" where
  "merge_paths b p =
     (if ref_authority b \<noteq> None \<and> ref_path b = [] then ''/'' @ p
      else rev (dropWhile (\<lambda>x. x \<noteq> CHR ''/'') (rev (ref_path b))) @ p)"

definition resolve_ref :: "url_ref \<Rightarrow> url_ref \<Rightarrow> url_ref" where
  "resolve_ref b r =
     (if ref_authority r \<noteq> None
      then r\<lparr>ref_path := remove_dot_segments (ref_path r)\<rparr>
      else if ref_path r = []
      then \<lparr>ref_authority = ref_authority b, ref_path = ref_path b,
            ref_query = (if ref_query r \<noteq> None then ref_query r else ref_query b),
            ref_fragment = ref_fragment r\<rparr>
      else \<lparr>ref_authority = ref_authority b,
            ref_path = remove_dot_segments
                         (if prefix ''/'' (ref_path r) then ref_path r else merge_paths b (ref_path r)),
            ref_query = ref_query r, ref_fragment = ref_fragment r\<rparr>)"

text \<open>
  Modelled from the spec: the join of \<open>url\<close> with \<open>base\<close>, as the spec words it (see the
  head of this section).
\<close>

definition urljoin :: "string \<Rightarrow> string \<Rightarrow> string" where
  "urljoin base url =
     (case split_scheme url of
        Some x \<Rightarrow> url
      | None \<Rightarrow>
          (case split_scheme base of
             Some (name, rest) \<Rightarrow> name @ '':'' @ unparse_ref (resolve_ref (parse_ref rest) (parse_ref url))
           | None \<Rightarrow> unparse_ref (resolve_ref (parse_ref base) (parse_ref url))))"

text \<open>
  Modelled from the spec: the call \<^verbatim>\<open>urljoin(base, url)\<close> on Python values. The library
  joins two strings and raises on a value that is no string.
\<close>

definition urljoin_call :: "pyval \<Rightarrow> pyval \<Rightarrow> exn + string" where
  "urljoin_call base url =
     (case (base, url) of
        (PStr b, PStr u) \<Rightarrow> Inr (urljoin b u)
      | _ \<Rightarrow> Inl ''Cannot mix str and non-str arguments'')"

section \<open>main.py\<close>

record config =
  MY_SECRET :: "string option"
  MY_EMAIL :: "string option"

record QuizPayload =
  payload_email :: string
  payload_secret :: string
  payload_url :: string

record APIResponse =
  api_status :: string
  api_message :: string

datatype http_exception = HTTPException nat string

text \<open>A call of \<^verbatim>\<open>background_tasks.add_task(run_quiz_solver_background, email, secret, url)\<close>.\<close>

datatype background_task = Run_quiz_solver_background string string string

definition start_quiz ::
  "config \<Rightarrow> QuizPayload \<Rightarrow> background_task list
   \<Rightarrow> (http_exception + APIResponse) \<times> background_task list" where
  "start_quiz cfg payload background_tasks =
     (if Some (payload_secret payload) \<noteq> MY_SECRET cfg
      then (Inl (HTTPException 403 ''Invalid secret provided.''), background_tasks)
      else if Some (payload_email payload) \<noteq> MY_EMAIL cfg
      then (Inl (HTTPException 403 ''Invalid email provided.''), background_tasks)
      else (Inr \<lparr>api_status = ''accepted'',
                 api_message = ''Quiz task accepted and is processing in the background.''\<rparr>,
            background_tasks
              @ [Run_quiz_solver_background (payload_email payload) (payload_secret payload)
                   (payload_url payload)]))"

section \<open>Vocabulary of the properties\<close>

text \<open>\<open>emits P s s'\<close>: the run from \<open>s\<close> to \<open>s'\<close> added events to the trace, all of them in \<open>P\<close>.\<close>

definition emits :: "(event \<Rightarrow> bool) \<Rightarrow> 'w st \<Rightarrow> 'w st \<Rightarrow> bool" where
  "emits P s s' = (\<exists>evs. trace s' = trace s @ evs \<and> list_all P evs)"

text \<open>
  The events of a round after its plan was accepted, for the resolved data URL \<open>du\<close> and
  the resolved submission URL \<open>su\<close>: no fetch, no planning, no timeout and no crash, and
  any download or submission goes to the resolved URL.
\<close>

fun plan_message :: "message \<Rightarrow> bool" where
  "plan_message (Data_url_found u) = True"
| "plan_message (Failed_to_process_file e) = True"
| "plan_message (Final_answer a) = True"
| "plan_message (Submitting_to u) = True"
| "plan_message Answer_correct = True"
| "plan_message Quiz_complete = True"
| "plan_message (Answer_wrong r) = True"
| "plan_message Quiz_ended_wrong = True"
| "plan_message _ = False"

fun plan_event :: "pyval \<Rightarrow> pyval \<Rightarrow> event \<Rightarrow> bool" where
  "plan_event du su (Call_download_file u d) = (u = du)"
| "plan_event du su (Http_get u) = (du = PStr u)"
| "plan_event du su (Post_submission u p) = (u = su)"
| "plan_event du su (Call_scrape_page_content u) = False"
| "plan_event du su (Call_get_plan_from_llm p) = False"
| "plan_event du su (LLM_request (PlanRequest p)) = False"
| "plan_event du su (LLM_request (AnswerRequest q c)) = True"
| "plan_event du su (Print m) = plan_message m"
| "plan_event du su (Call_get_text_from_pdf p) = True"
| "plan_event du su (Call_get_text_from_csv p) = True"
| "plan_event du su (Call_get_answer_from_llm q c) = True"
| "plan_event du su (File_write p c) = True"

fun is_plan_call :: "event \<Rightarrow> bool" where
  "is_plan_call (Call_get_plan_from_llm p) = True"
| "is_plan_call _ = False"

fun is_llm_request :: "event \<Rightarrow> bool" where
  "is_llm_request (LLM_request r) = True"
| "is_llm_request _ = False"

fun is_answer_call :: "event \<Rightarrow> bool" where
  "is_answer_call (Call_get_answer_from_llm q c) = True"
| "is_answer_call _ = False"

fun is_fetch_call :: "event \<Rightarrow> bool" where
  "is_fetch_call (Call_scrape_page_content u) = True"
| "is_fetch_call _ = False"

fun is_plan_failure :: "event \<Rightarrow> bool" where
  "is_plan_failure (Print (Failed_to_get_plan v)) = True"
| "is_plan_failure _ = False"

fun is_crash :: "event \<Rightarrow> bool" where
  "is_crash (Print (Unexpected_error e)) = True"
| "is_crash _ = False"

section \<open>A scripted world\<close>

text \<open>
  A world for concrete runs. Its state is a clock in seconds; the page, the parsed plan,
  the answer of the download server and the answer of the submission endpoint are
  given, and every call takes some seconds.
\<close>

definition script_env ::
  "render_result \<Rightarrow> exn + pyval \<Rightarrow> exn + http_response \<Rightarrow> exn + pyval \<Rightarrow> nat env" where
  "script_env page plan download result =
     \<lparr>time_now = (\<lambda>w. (of_nat w, w)),
      page_render = (\<lambda>u w. (page, w + 2)),
      chat_completion =
        (\<lambda>r w. case r of
                  PlanRequest p \<Rightarrow> (Inr (PStr ''{}''), w + 5)
                | AnswerRequest q c \<Rightarrow> (Inr (PStr ''29172''), w + 5)),
      json_loads = (\<lambda>t. plan),
      py_repr = (\<lambda>v. ''{}''),
      urljoin_lib = urljoin_call,
      makedirs = (\<lambda>d w. (None, w)),
      http_get = (\<lambda>u w. (download, w + 1)),
      write_file = (\<lambda>p c w. (None, w)),
      pdf_pages = (\<lambda>p w. (Inl ''No /Root object! - Is this really a PDF?'', w)),
      read_csv = (\<lambda>p w. (Inr ''0'', w)),
      post_json = (\<lambda>u p w. (result, w + 1))\<rparr>"

section \<open>Properties of the Answer Resolver\<close>

lemmas answer_eval = postprocess_answer_def py_strip_def py_isspace_def keep_digits_dots_def
  is_digit_def float_of_cleaned_def round_to_double_def binary_exponent_def bit_length_def
  round_half_even_def compute_floorlog digits_val_def digit_val_def trunc_float_def Let_def

lemma postprocess_29172: "postprocess_answer ''29172'' = Inr (PInt 29172)"
  by (simp add: answer_eval)

lemma postprocess_sum: "postprocess_answer ''The sum is 450123.'' = Inr (PInt 450123)"
  by (simp add: answer_eval)

lemma postprocess_sentinel:
  "postprocess_answer ''ANSWER_NOT_FOUND'' = Inr (PStr ''ANSWER_NOT_FOUND'')"
  by (simp add: answer_eval)

lemma postprocess_unknown: "postprocess_answer ''unknown'' = Inr (PStr ''unknown'')"
  by (simp add: answer_eval)

lemma postprocess_is_sentinel:
  "py_strip raw = [] \<or> py_strip raw = ''ANSWER_NOT_FOUND''
   \<Longrightarrow> postprocess_answer raw = Inr (PStr ''ANSWER_NOT_FOUND'')"
  by (simp add: postprocess_answer_def)

lemma float_of_cleaned_Nil: "float_of_cleaned [] = None"
  by (simp add: float_of_cleaned_def)

lemma postprocess_is_int:
  "py_strip raw \<noteq> [] \<Longrightarrow> py_strip raw \<noteq> ''ANSWER_NOT_FOUND''
   \<Longrightarrow> float_of_cleaned (keep_digits_dots (py_strip raw)) = Some (Finite m p)
   \<Longrightarrow> postprocess_answer raw = Inr (PInt (trunc_float m p))"
  by (cases "keep_digits_dots (py_strip raw) = []")
     (simp_all add: postprocess_answer_def Let_def float_of_cleaned_Nil)

lemma postprocess_is_text:
  "py_strip raw \<noteq> [] \<Longrightarrow> py_strip raw \<noteq> ''ANSWER_NOT_FOUND''
   \<Longrightarrow> keep_digits_dots (py_strip raw) = []
        \<or> float_of_cleaned (keep_digits_dots (py_strip raw)) = None
   \<Longrightarrow> postprocess_answer raw = Inr (PStr (py_strip raw))"
  by (cases "keep_digits_dots (py_strip raw) = []")
     (simp_all add: postprocess_answer_def Let_def)

text \<open>
  C1 (amended). For every completion text \<open>raw\<close>, with \<open>py_strip raw\<close> the text after
  whitespace trimming: if the trimmed text is empty or is the sentinel
  \<^verbatim>\<open>ANSWER_NOT_FOUND\<close>, the result is the sentinel. Otherwise every character that is
  neither a digit nor a dot is removed from the trimmed text; if what remains is a float
  literal with a finite value, the result is that float truncated to an integer
  (\<^verbatim>\<open>"29172"\<close> gives 29172 and \<^verbatim>\<open>"The sum is 450123."\<close> gives 450123); if nothing remains
  or what remains is no float literal, the result is the trimmed text, not the raw one
  (\<^verbatim>\<open>"unknown"\<close> is returned as it is).
\<close>

theorem answer_normalization:
  "(py_strip raw = [] \<or> py_strip raw = ''ANSWER_NOT_FOUND''
      \<longrightarrow> postprocess_answer raw = Inr (PStr ''ANSWER_NOT_FOUND''))
   \<and> (py_strip raw \<noteq> [] \<and> py_strip raw \<noteq> ''ANSWER_NOT_FOUND''
        \<and> float_of_cleaned (keep_digits_dots (py_strip raw)) = Some (Finite m p)
      \<longrightarrow> postprocess_answer raw = Inr (PInt (trunc_float m p)))
   \<and> (py_strip raw \<noteq> [] \<and> py_strip raw \<noteq> ''ANSWER_NOT_FOUND''
        \<and> (keep_digits_dots (py_strip raw) = []
             \<or> float_of_cleaned (keep_digits_dots (py_strip raw)) = None)
      \<longrightarrow> postprocess_answer raw = Inr (PStr (py_strip raw)))
   \<and> postprocess_answer ''29172'' = Inr (PInt 29172)
   \<and> postprocess_answer ''The sum is 450123.'' = Inr (PInt 450123)
   \<and> postprocess_answer ''ANSWER_NOT_FOUND'' = Inr (PStr ''ANSWER_NOT_FOUND'')
   \<and> postprocess_answer ''unknown'' = Inr (PStr ''unknown'')"
proof (intro conjI impI)
  show "postprocess_answer raw = Inr (PStr ''ANSWER_NOT_FOUND'')"
    if "py_strip raw = [] \<or> py_strip raw = ''ANSWER_NOT_FOUND''"
    using that by (rule postprocess_is_sentinel)
  show "postprocess_answer raw = Inr (PInt (trunc_float m p))"
    if "py_strip raw \<noteq> [] \<and> py_strip raw \<noteq> ''ANSWER_NOT_FOUND''
        \<and> float_of_cleaned (keep_digits_dots (py_strip raw)) = Some (Finite m p)"
    using that by (simp add: postprocess_is_int)
  show "postprocess_answer raw = Inr (PStr (py_strip raw))"
    if "py_strip raw \<noteq> [] \<and> py_strip raw \<noteq> ''ANSWER_NOT_FOUND''
        \<and> (keep_digits_dots (py_strip raw) = []
             \<or> float_of_cleaned (keep_digits_dots (py_strip raw)) = None)"
    using that postprocess_is_text [of raw] by blast
qed (fact postprocess_29172 postprocess_sum postprocess_sentinel postprocess_unknown)+

lemma witness_strip:
  "py_strip '' '' = []" "py_strip ''12.5 apples'' = ''12.5 apples''"
  "py_strip '' n/a '' = ''n/a''" "py_strip ''v1.2.3'' = ''v1.2.3''"
  by (simp_all add: py_strip_def py_isspace_def)

lemma witness_keep:
  "keep_digits_dots ''12.5 apples'' = ''12.5''" "keep_digits_dots ''n/a'' = []"
  "keep_digits_dots ''v1.2.3'' = ''1.2.3''"
  by (simp_all add: keep_digits_dots_def is_digit_def)

lemma witness_float_steps:
  "float_of_cleaned ''12.5'' = Some (round_to_double 125 10)"
  "float_of_cleaned ''1.2.3'' = None"
  by (simp_all add: float_of_cleaned_def is_digit_def digits_val_def digit_val_def)

lemma witness_round: "round_to_double 125 10 = Finite 7036874417766400 (- 49)"
  by (simp add: round_to_double_def binary_exponent_def bit_length_def round_half_even_def
      compute_floorlog Let_def)

lemmas witness_float = witness_float_steps [unfolded witness_round]

lemma witness_trunc: "trunc_float 7036874417766400 (- 49) = 12"
  by (simp add: trunc_float_def)

text \<open>The three cases of C1 at concrete texts.\<close>

theorem answer_normalization_witness:
  "py_strip '' '' = []
   \<and> postprocess_answer '' '' = Inr (PStr ''ANSWER_NOT_FOUND'')
   \<and> float_of_cleaned (keep_digits_dots (py_strip ''12.5 apples''))
       = Some (Finite 7036874417766400 (- 49))
   \<and> postprocess_answer ''12.5 apples'' = Inr (PInt 12)
   \<and> keep_digits_dots (py_strip '' n/a '') = []
   \<and> postprocess_answer '' n/a '' = Inr (PStr ''n/a'')
   \<and> float_of_cleaned (keep_digits_dots (py_strip ''v1.2.3'')) = None
   \<and> postprocess_answer ''v1.2.3'' = Inr (PStr ''v1.2.3'')"
proof -
  have "postprocess_answer '' '' = Inr (PStr ''ANSWER_NOT_FOUND'')"
    using answer_normalization [of "'' ''" 0 0] by (simp only: witness_strip simp_thms)
  moreover have "postprocess_answer ''12.5 apples'' = Inr (PInt 12)"
    using answer_normalization [of "''12.5 apples''" 7036874417766400 "- 49"]
    by (simp add: witness_strip witness_keep witness_float witness_trunc)
  moreover have "postprocess_answer '' n/a '' = Inr (PStr ''n/a'')"
    using answer_normalization [of "'' n/a ''" 0 0]
    by (simp add: witness_strip witness_keep)
  moreover have "postprocess_answer ''v1.2.3'' = Inr (PStr ''v1.2.3'')"
    using answer_normalization [of "''v1.2.3''" 0 0]
    by (simp add: witness_strip witness_keep witness_float)
  ultimately show ?thesis
    by (simp add: witness_strip witness_keep witness_float)
qed

text \<open>
  C1 as it was stated fails: for a completion that ends with a newline and has no digit,
  the result is the trimmed text, which is not the raw text.
\<close>

theorem answer_raw_text_counterexample:
  "keep_digits_dots (py_strip (''unknown'' @ [CHR 0x0A])) = []
   \<and> postprocess_answer (''unknown'' @ [CHR 0x0A]) \<noteq> Inr (PStr (''unknown'' @ [CHR 0x0A]))"
  by (simp add: answer_eval)

text \<open>
  Two facts about the conversion itself. On the strings that the cleaning leaves, \<^verbatim>\<open>float\<close>
  raises exactly when there is no digit or more than one dot. And a string of digits
  that spells a number below \<open>2 ^ 53\<close> converts to that number: no rounding happens.
\<close>

lemma py_split_not_Nil: "py_split c t \<noteq> []"
  by (induction t) (auto split: list.splits)

lemma bit_length_bounds:
  assumes "0 < n"
  shows "2 ^ (bit_length n - 1) \<le> n" and "n < 2 ^ bit_length n" and "0 < bit_length n"
proof -
  from floorlog_bounds [of n 2] assms
  show a: "2 ^ (bit_length n - 1) \<le> n" and b: "n < 2 ^ bit_length n"
    by (simp_all add: bit_length_def)
  show "0 < bit_length n"
  proof (rule ccontr)
    assume "\<not> 0 < bit_length n"
    with b have "n < 1" by simp
    with assms show False by simp
  qed
qed

lemma bit_length_one: "bit_length (Suc 0) = Suc 0"
  by (simp add: bit_length_def compute_floorlog)

lemma round_to_double_exact:
  assumes "n < 2 ^ 53"
  shows "\<exists>m p. round_to_double n 1 = Finite m p \<and> trunc_float m p = int n"
proof (cases "n = 0")
  case True
  then show ?thesis by (simp add: round_to_double_def trunc_float_def)
next
  case False
  define b where "b = bit_length n"
  from False have pos: "0 < n" by simp
  note bb = bit_length_bounds [OF pos, folded b_def]
  have b53: "b \<le> 53"
  proof (rule ccontr)
    assume "\<not> b \<le> 53"
    then have "53 \<le> b - 1" by simp
    then have "(2::nat) ^ 53 \<le> 2 ^ (b - 1)" by (intro power_increasing) simp_all
    with bb(1) assms show False by simp
  qed
  have e: "binary_exponent n 1 = int b - 1"
    using bb by (simp add: binary_exponent_def bit_length_one b_def [symmetric] Let_def nat_diff_distrib)
  have p: "max (binary_exponent n 1 - 52) (- 1074) = int b - 53"
    using e by simp
  have np: "nat (- (int b - 53)) = 53 - b" "nat (int b - 53) = 0"
    using b53 by simp_all
  have m: "round_half_even (n * 2 ^ (53 - b)) (1 * 2 ^ 0) = n * 2 ^ (53 - b)"
    by (simp add: round_half_even_def)
  have r: "round_to_double n 1 = Finite (n * 2 ^ (53 - b)) (int b - 53)"
  proof (cases "b = 53")
    case True
    with assms pos p np m show ?thesis
      by (simp add: round_to_double_def Let_def) 
  next
    case False
    with b53 have "\<not> 0 \<le> int b - 53" by simp
    with pos p np m show ?thesis
      by (simp add: round_to_double_def Let_def)
  qed
  have "trunc_float (n * 2 ^ (53 - b)) (int b - 53) = int n"
    using b53 np by (simp add: trunc_float_def)
  with r show ?thesis by blast
qed

lemma float_of_digits:
  assumes "ds \<noteq> []" "list_all is_digit ds"
  shows "float_of_cleaned ds = Some (round_to_double (digits_val ds) 1)"
proof -
  have tw: "takeWhile is_digit ds = ds" and dw: "dropWhile is_digit ds = []"
    using assms(2) by (simp_all add: list_all_iff)
  show ?thesis
    unfolding float_of_cleaned_def Let_def tw dw using assms(1) by simp
qed

lemma postprocess_digits:
  assumes "py_strip raw \<noteq> []" "py_strip raw \<noteq> ''ANSWER_NOT_FOUND''"
    and "keep_digits_dots (py_strip raw) = ds" "ds \<noteq> []" "list_all is_digit ds"
    and "digits_val ds < 2 ^ 53"
  shows "postprocess_answer raw = Inr (PInt (int (digits_val ds)))"
proof -
  from round_to_double_exact [OF assms(6)] obtain m p where
    r: "round_to_double (digits_val ds) 1 = Finite m p" and t: "trunc_float m p = int (digits_val ds)"
    by blast
  have "float_of_cleaned (keep_digits_dots (py_strip raw)) = Some (Finite m p)"
    using float_of_digits [OF assms(4,5)] r assms(3) by simp
  with assms(1,2) t show ?thesis by (simp add: postprocess_is_int)
qed

lemma float_of_cleaned_None_iff:
  assumes "\<forall>c\<in>set s. is_digit c \<or> c = CHR ''.''"
  shows "float_of_cleaned s = None
         \<longleftrightarrow> (\<forall>c\<in>set s. \<not> is_digit c) \<or> 1 < count_list s CHR ''.''"
proof -
  define ip where "ip = takeWhile is_digit s"
  define rest where "rest = dropWhile is_digit s"
  have s: "s = ip @ rest" by (simp add: ip_def rest_def)
  have ipd: "\<forall>c\<in>set ip. is_digit c"
    unfolding ip_def using set_takeWhileD by fastforce
  have nd: "\<not> is_digit CHR ''.''" by (simp add: is_digit_def)
  have cip: "count_list ip CHR ''.'' = 0"
    using ipd nd by (auto simp: count_list_0_iff)
  show ?thesis
  proof (cases rest)
    case Nil
    have "float_of_cleaned s = (if ip = [] then None else Some (round_to_double (digits_val ip) 1))"
      using Nil by (simp add: float_of_cleaned_def Let_def ip_def [symmetric] rest_def [symmetric])
    moreover have "s = ip" using s Nil by simp
    ultimately show ?thesis
      using ipd cip by (cases ip) auto
  next
    case (Cons c fp)
    have "dropWhile is_digit s \<noteq> []" "hd (dropWhile is_digit s) = c"
      using Cons by (simp_all add: rest_def)
    then have "\<not> is_digit c"
      using hd_dropWhile [of is_digit s] by blast
    with assms s Cons have c: "c = CHR ''.''" by auto
    have fpd: "\<forall>x\<in>set fp. is_digit x \<or> x = CHR ''.''"
      using assms s Cons by auto
    have all_iff: "list_all is_digit fp \<longleftrightarrow> count_list fp CHR ''.'' = 0"
      using fpd nd by (auto simp: list_all_iff count_list_0_iff)
    have cnt: "count_list s CHR ''.'' = 1 + count_list fp CHR ''.''"
      using s Cons c cip by simp
    have nodig: "(\<forall>x\<in>set s. \<not> is_digit x) \<longleftrightarrow> ip = [] \<and> (\<forall>x\<in>set fp. \<not> is_digit x)"
      using s Cons c ipd nd by (cases ip) auto
    have f: "float_of_cleaned s = None \<longleftrightarrow> \<not> (list_all is_digit fp \<and> (ip \<noteq> [] \<or> fp \<noteq> []))"
      using Cons c
      by (simp add: float_of_cleaned_def Let_def ip_def [symmetric] rest_def [symmetric])
    show ?thesis
    proof (cases "list_all is_digit fp")
      case True
      then have "(\<forall>x\<in>set fp. \<not> is_digit x) \<longleftrightarrow> fp = []"
        by (cases fp) (auto simp: list_all_iff)
      with True f cnt nodig all_iff show ?thesis by auto
    next
      case False
      with f cnt all_iff show ?thesis by auto
    qed
  qed
qed

text \<open>
  The subtraction of doubles rounds, and rounding keeps the order with respect to a
  double: an exact difference of at most \<open>k\<close> seconds never tests as more than \<open>k\<close>, and
  one of at least \<open>k + 1\<close> seconds always does.
\<close>

lemma round_half_even_le: "0 < d \<Longrightarrow> n \<le> k * d \<Longrightarrow> round_half_even n d \<le> k"
proof -
  assume d: "0 < d" and le: "n \<le> k * d"
  have nd: "n = (n div d) * d + n mod d" by simp
  have f: "n div d \<le> k" using le d by (metis div_le_mono div_mult_self_is_m)
  show ?thesis
  proof (cases "n div d = k")
    case True
    with nd le have "n mod d = 0" by (metis add_le_same_cancel1 le_zero_eq)
    with True d show ?thesis by (simp add: round_half_even_def Let_def)
  next
    case False
    with f have "n div d + 1 \<le> k" by simp
    then show ?thesis by (auto simp: round_half_even_def Let_def)
  qed
qed


lemma binary_exponent_lower:
  assumes "0 < n" "0 < d" "0 \<le> binary_exponent n d"
  shows "d * 2 ^ nat (binary_exponent n d) \<le> n"
proof -
  define k where "k = int (bit_length n) - int (bit_length d)"
  show ?thesis
  proof (cases "d * 2 ^ nat k \<le> n * 2 ^ nat (- k)")
    case True
    then have e: "binary_exponent n d = k" by (simp add: binary_exponent_def k_def Let_def)
    with assms(3) have "nat (- k) = 0" by simp
    with True e show ?thesis by simp
  next
    case False
    then have e: "binary_exponent n d = k - 1" by (simp add: binary_exponent_def k_def Let_def)
    with assms(3) have k1: "1 \<le> k" by simp
    then have bl: "bit_length d + 1 \<le> bit_length n" by (simp add: k_def)
    have nk: "nat (k - 1) = bit_length n - 1 - bit_length d"
      using k1 by (simp add: k_def)
    have "d * 2 ^ (bit_length n - 1 - bit_length d) \<le> 2 ^ bit_length d * 2 ^ (bit_length n - 1 - bit_length d)"
      using bit_length_bounds(2) [OF assms(2)] by (simp add: less_imp_le)
    also have "\<dots> = 2 ^ (bit_length n - 1)"
      using bl by (simp flip: power_add)
    also have "\<dots> \<le> n" using bit_length_bounds(1) [OF assms(1)] .
    finally show ?thesis by (simp add: e nk)
  qed
qed

lemma round_to_double_le:
  assumes "0 < d" "n \<le> k * d" "k < 2 ^ 52"
  shows "\<not> float_gt (False, round_to_double n d) k"
proof (cases "n = 0")
  case True
  then show ?thesis by (simp add: round_to_double_def)
next
  case False
  then have n: "0 < n" by simp
  define p where "p = max (binary_exponent n d - 52) (- 1074)"
  define m where "m = round_half_even (n * 2 ^ nat (- p)) (d * 2 ^ nat p)"
  have r: "round_to_double n d = (if 0 \<le> p \<and> 2 ^ 1024 \<le> m * 2 ^ nat p then Infinity else Finite m p)"
    unfolding round_to_double_def Let_def p_def m_def using False by (simp only: if_False)
  show ?thesis
  proof (cases "0 \<le> p")
    case True
    then have e: "52 \<le> binary_exponent n d" and pe: "p = binary_exponent n d - 52"
      by (auto simp: p_def)
    have "d * 2 ^ nat (binary_exponent n d) \<le> n"
      using n assms(1) e by (intro binary_exponent_lower) simp_all
    moreover have "nat (binary_exponent n d) = nat p + 52" using e pe by simp
    ultimately have "d * (2 ^ nat p * 2 ^ 52) \<le> n" by (simp add: power_add)
    moreover have "d * 2 ^ 52 \<le> d * (2 ^ nat p * 2 ^ 52)" by simp
    ultimately have "d * 2 ^ 52 \<le> k * d" using assms(2) by linarith
    then have "(2::nat) ^ 52 \<le> k" using assms(1) by (simp add: mult.commute)
    with assms(3) show ?thesis by simp
  next
    case False
    then have np: "nat p = 0" by simp
    have "n * 2 ^ nat (- p) \<le> (k * 2 ^ nat (- p)) * d"
      using assms(2) by (simp add: mult.commute mult.left_commute mult.assoc)
    then have "m \<le> k * 2 ^ nat (- p)"
      unfolding m_def np using assms(1) by (intro round_half_even_le) simp_all
    with False r show ?thesis by simp
  qed
qed


lemma float_sub_within:
  assumes "a - b \<le> of_nat k" "k < 2 ^ 52"
  shows "\<not> float_gt (float_sub a b) k"
proof -
  obtain n d where q: "quotient_of (a - b) = (n, d)" by (cases "quotient_of (a - b)")
  have d: "0 < d" using q by (rule quotient_of_denom_pos)
  have v: "a - b = of_int n / of_int d" using q by (rule quotient_of_div)
  show ?thesis
  proof (cases "n < 0")
    case True
    with q show ?thesis by (cases "round_to_double (nat \<bar>n\<bar>) (nat d)") (simp_all add: float_sub_def)
  next
    case False
    have "(of_int n :: rat) \<le> of_nat k * of_int d"
      using assms(1) d unfolding v by (simp add: pos_divide_le_eq)
    then have "n \<le> int k * d" by (metis of_int_le_iff of_int_mult of_int_of_nat_eq)
    then have "nat \<bar>n\<bar> \<le> k * nat d"
      using False d by (simp add: nat_le_iff nat_mult_distrib)
    moreover have "0 < nat d" using d by simp
    ultimately have "\<not> float_gt (False, round_to_double (nat \<bar>n\<bar>) (nat d)) k"
      using assms(2) by (intro round_to_double_le)
    with False q show ?thesis by (simp add: float_sub_def)
  qed
qed


text \<open>
  A reading at the boundary: the run starts at \<open>3 / 2 ^ 47\<close> and the check reads
  \<open>170 + 1 / 2 ^ 45\<close>. The exact difference is above 170, the difference as a double is
  170, and the test of line 29 fails: the round goes on.
\<close>

lemma boundary_quotient:
  "quotient_of (23925373020405761 / 140737488355328) = (23925373020405761, 140737488355328)"
proof -
  have f: "(23925373020405761 / 140737488355328 :: rat) = Fract 23925373020405761 140737488355328"
    by (simp add: Fract_of_int_quotient)
  have "(140737488355328 :: int) = 2 ^ 47" by simp
  moreover have "coprime (23925373020405761 :: int) (2 ^ 47)"
    by (simp only: coprime_power_right_iff) simp
  ultimately have c: "coprime (23925373020405761 :: int) 140737488355328" by simp
  have "Rat.normalize (23925373020405761 :: int, 140737488355328 :: int)
        = (23925373020405761, 140737488355328)"
    using c by (intro normalize_stable) simp_all
  then show ?thesis
    unfolding f quotient_of_Fract .
qed

lemma boundary_round:
  "round_to_double 23925373020405761 140737488355328 = Finite 5981343255101440 (- 45)"
  by (simp add: round_to_double_def binary_exponent_def bit_length_def round_half_even_def
      compute_floorlog Let_def)

lemma boundary_fetches: "\<not> float_gt (float_sub (170 + 1 / 2 ^ 45) (3 / 2 ^ 47)) 170"
  by (simp add: float_sub_def boundary_quotient boundary_round)

lemma within_budget:
  "\<not> now - start_time > 170 \<Longrightarrow> \<not> float_gt (float_sub now start_time) 170"
  using float_sub_within [of now start_time 170] by simp


section \<open>Properties of the Agent Loop\<close>

lemma trace_emit [simp]: "trace (emit e s) = trace s @ [e]"
  by (simp add: emit_def)

lemma world_emit [simp]: "world (emit e s) = world s"
  by (simp add: emit_def)

lemma ask_eq: "f (world s) = (a, w) \<Longrightarrow> ask f s = (a, s\<lparr>world := w\<rparr>)"
  by (simp add: ask_def)

lemma emit_world_update: "emit e (s\<lparr>world := w\<rparr>) = (emit e s)\<lparr>world := w\<rparr>"
  by (simp add: emit_def)

lemma quiz_loop_stop: "\<not> truthy u \<Longrightarrow> quiz_loop env t0 email secret u s = Some s"
  by (subst quiz_loop.simps) simp

lemma quiz_loop_break:
  "truthy u \<Longrightarrow> loop_iteration env t0 email secret u s = (Break, s1)
   \<Longrightarrow> quiz_loop env t0 email secret u s = Some s1"
  by (subst quiz_loop.simps) simp

lemma quiz_loop_next:
  "truthy u \<Longrightarrow> loop_iteration env t0 email secret u s = (Next v, s1)
   \<Longrightarrow> quiz_loop env t0 email secret u s = quiz_loop env t0 email secret v s1"
  by (subst quiz_loop.simps) simp




lemma emits_refl: "emits P s s"
  by (simp add: emits_def)

lemma emits_trans: "emits P s s1 \<Longrightarrow> emits P s1 s2 \<Longrightarrow> emits P s s2"
  by (auto simp: emits_def)

lemma emits_emit: "P e \<Longrightarrow> emits P s (emit e s)"
  by (simp add: emits_def)

lemma emits_ask: "ask f s = (a, s1) \<Longrightarrow> emits P s s1"
  by (auto simp: emits_def ask_def split: prod.splits)

lemma emits_emit_ask: "P e \<Longrightarrow> ask f (emit e s) = (a, s1) \<Longrightarrow> emits P s s1"
  by (auto simp: emits_def ask_def split: prod.splits)


lemma emits_after: "P e \<Longrightarrow> emits P (emit e s) s1 \<Longrightarrow> emits P s s1"
  by (auto simp: emits_def)

lemma download_file_emits:
  "download_file env du dir s = (r, s1) \<Longrightarrow> emits (plan_event du su) s s1"
  by (auto simp: download_file_def emits_def ask_def emit_def Let_def
      split: prod.splits option.splits sum.splits pyval.splits)

lemma get_text_from_pdf_emits:
  "get_text_from_pdf env p s = (r, s1) \<Longrightarrow> emits (plan_event du su) s s1"
  by (auto simp: get_text_from_pdf_def emits_def ask_def emit_def split: prod.splits sum.splits)

lemma get_text_from_csv_emits:
  "get_text_from_csv env p s = (r, s1) \<Longrightarrow> emits (plan_event du su) s s1"
  by (auto simp: get_text_from_csv_def emits_def ask_def emit_def split: prod.splits sum.splits)

lemma processing_failed_emits:
  "emits (plan_event du su) s s1 \<Longrightarrow> processing_failed e s1 = (c, s2)
   \<Longrightarrow> emits (plan_event du su) s s2"
  by (auto simp: processing_failed_def emits_def)

lemma acquire_data_emits:
  assumes "acquire_data env du page s = (c, s1)"
  shows "emits (plan_event du su) s s1"
proof (cases "truthy du")
  case False
  with assms show ?thesis by (simp add: acquire_data_def emits_refl)
next
  case True
  let ?s0 = "emit (Print (Data_url_found du)) s"
  obtain r sd where d: "download_file env du ''temp_data'' ?s0 = (r, sd)"
    by (cases "download_file env du ''temp_data'' ?s0")
  have e0: "emits (plan_event du su) s sd"
    using download_file_emits [OF d, of su] by (auto simp: emits_def)
  show ?thesis
  proof (cases r)
    case (Inl e)
    with assms True d e0 show ?thesis
      by (auto simp: acquire_data_def intro: processing_failed_emits)
  next
    case (Inr path)
    with assms True d e0 show ?thesis
      by (auto simp: acquire_data_def split: if_splits prod.splits sum.splits
          intro: processing_failed_emits emits_trans
          dest: get_text_from_pdf_emits [of _ _ _ _ _ du su]
                get_text_from_csv_emits [of _ _ _ _ _ du su])
  qed
qed

lemma get_answer_from_llm_emits:
  "get_answer_from_llm env q c s = (r, s1) \<Longrightarrow> emits (plan_event du su) s s1"
  by (auto simp: get_answer_from_llm_def chat_def emits_def ask_def emit_def Let_def
      split: prod.splits sum.splits pyval.splits if_splits)

lemma process_result_emits:
  "process_result d s = (r, s1) \<Longrightarrow> emits (plan_event du su) s s1"
  by (auto simp: process_result_def emits_def emit_def Let_def
      split: pyval.splits if_splits)

lemma submit_answer_emits:
  "submit_answer env email secret cur su a s = (r, s1) \<Longrightarrow> emits (plan_event du su) s s1"
  by (auto simp: submit_answer_def process_result_def emits_def ask_def emit_def Let_def
      split: prod.splits sum.splits pyval.splits if_splits)


lemma execute_plan_emits:
  assumes "resolve_url env cur (dict_get plan ''data_url'') = Inr du"
    and "resolve_url env cur (dict_get plan ''submit_url'') = Inr su"
    and "execute_plan env email secret cur page plan s = (r, s')"
  shows "emits (plan_event du su) s s'"
proof -
  obtain c s1 where a: "acquire_data env du page s = (c, s1)"
    by (cases "acquire_data env du page s")
  obtain ra s2 where g: "get_answer_from_llm env (dict_get plan ''question'') c s1 = (ra, s2)"
    by (cases "get_answer_from_llm env (dict_get plan ''question'') c s1")
  have e2: "emits (plan_event du su) s s2"
    using acquire_data_emits [OF a] get_answer_from_llm_emits [OF g] by (rule emits_trans)
  show ?thesis
  proof (cases ra)
    case (Inl e)
    with assms a g e2 show ?thesis by (simp add: execute_plan_def)
  next
    case (Inr ans)
    obtain rs s3 where
      sub: "submit_answer env email secret cur su ans (emit (Print (Final_answer ans)) s2) = (rs, s3)"
      by (cases "submit_answer env email secret cur su ans (emit (Print (Final_answer ans)) s2)")
    have "emits (plan_event du su) s2 s3"
      using submit_answer_emits [OF sub, of du] by (auto simp: emits_def)
    with e2 have "emits (plan_event du su) s s3" by (rule emits_trans)
    with assms a g Inr sub show ?thesis
      by (auto simp: execute_plan_def split: sum.splits)
  qed
qed







lemma script_env_simps [simp]:
  "time_now (script_env page plan download result) = (\<lambda>w. (of_nat w, w))"
  "page_render (script_env page plan download result) = (\<lambda>u w. (page, w + 2))"
  "chat_completion (script_env page plan download result) (PlanRequest p) = (\<lambda>w. (Inr (PStr ''{}''), w + 5))"
  "chat_completion (script_env page plan download result) (AnswerRequest q c) = (\<lambda>w. (Inr (PStr ''29172''), w + 5))"
  "json_loads (script_env page plan download result) = (\<lambda>t. plan)"
  "py_repr (script_env page plan download result) = (\<lambda>v. ''{}'')"
  "urljoin_lib (script_env page plan download result) = urljoin_call"
  "makedirs (script_env page plan download result) = (\<lambda>d w. (None, w))"
  "http_get (script_env page plan download result) = (\<lambda>u w. (download, w + 1))"
  "write_file (script_env page plan download result) = (\<lambda>p c w. (None, w))"
  "pdf_pages (script_env page plan download result) = (\<lambda>p w. (Inl ''No /Root object! - Is this really a PDF?'', w))"
  "read_csv (script_env page plan download result) = (\<lambda>p w. (Inr ''0'', w))"
  "post_json (script_env page plan download result) = (\<lambda>u p w. (result, w + 1))"
  by (simp_all add: script_env_def)


text \<open>
  C4. If the Content Fetcher's result begins with \<^verbatim>\<open>Error:\<close> (the browser failed inside
  \<^verbatim>\<open>scrape_page_content\<close>, or the page itself begins so), the loop ends in that round
  with the scrape-failure line; the Plan Resolver is not called and no completion
  request is made.
\<close>

theorem scrape_failure_terminates:
  assumes "truthy current_url"
    and "time_now env (world s) = (now, w1)" and "\<not> now - start_time > 170"
    and "page_render env current_url w1 = (r, w2)"
    and "r = Failed e \<and> page = ''Error: Could not scrape page. '' @ e
         \<or> r = Content page \<and> prefix ''Error:'' page"
  shows "quiz_loop env start_time email secret current_url s
         = Some (s\<lparr>world := w2,
                   trace := trace s @ [Print New_task, Print (Processing_url current_url),
                                       Call_scrape_page_content current_url,
                                       Print (Failed_to_scrape page)]\<rparr>)
       \<and> \<not> list_ex is_plan_call [Print New_task, Print (Processing_url current_url),
                                   Call_scrape_page_content current_url,
                                   Print (Failed_to_scrape page)]
       \<and> \<not> list_ex is_llm_request [Print New_task, Print (Processing_url current_url),
                                   Call_scrape_page_content current_url,
                                   Print (Failed_to_scrape page)]"
proof -
  have "scrape_page_content env current_url
          (emit (Print (Processing_url current_url)) (emit (Print New_task) (s\<lparr>world := w1\<rparr>)))
        = (Inr page, s\<lparr>world := w2,
                         trace := trace s @ [Print New_task, Print (Processing_url current_url),
                                             Call_scrape_page_content current_url]\<rparr>)"
    using assms(4,5) by (auto simp: scrape_page_content_def ask_def emit_def)
  moreover have "prefix ''Error:'' page"
    using assms(5) by auto
  ultimately have "loop_iteration env start_time email secret current_url s
         = (Break, s\<lparr>world := w2,
                   trace := trace s @ [Print New_task, Print (Processing_url current_url),
                                       Call_scrape_page_content current_url,
                                       Print (Failed_to_scrape page)]\<rparr>)"
    using assms(2) within_budget [OF assms(3)]
    by (simp add: loop_iteration_def round_body_def ask_def emit_def)
  with assms(1) show ?thesis
    by (simp add: quiz_loop_break)
qed

text \<open>
  C4 in the scripted world: the browser fails on the first page.
\<close>

theorem scrape_failure_terminates_witness:
  "truthy (PStr ''https://h/p/q'')
   \<and> page_render (script_env (Failed ''net::ERR_NAME_NOT_RESOLVED'') (Inr (PDict [])) (Inl ''x'') (Inl ''x''))
        (PStr ''https://h/p/q'') 0 = (Failed ''net::ERR_NAME_NOT_RESOLVED'', 2)
   \<and> quiz_loop (script_env (Failed ''net::ERR_NAME_NOT_RESOLVED'') (Inr (PDict [])) (Inl ''x'') (Inl ''x''))
        0 ''me@example.org'' ''s3cret'' (PStr ''https://h/p/q'') \<lparr>world = 0, trace = []\<rparr>
      = Some \<lparr>world = 2,
               trace = [Print New_task, Print (Processing_url (PStr ''https://h/p/q'')),
                        Call_scrape_page_content (PStr ''https://h/p/q''),
                        Print (Failed_to_scrape
                          ''Error: Could not scrape page. net::ERR_NAME_NOT_RESOLVED'')]\<rparr>"
  using scrape_failure_terminates [where current_url = "PStr ''https://h/p/q''"
      and env = "script_env (Failed ''net::ERR_NAME_NOT_RESOLVED'') (Inr (PDict [])) (Inl ''x'') (Inl ''x'')"
      and s = "\<lparr>world = 0, trace = []\<rparr>" and now = 0 and ?w1.0 = 0 and start_time = 0
      and r = "Failed ''net::ERR_NAME_NOT_RESOLVED''" and ?w2.0 = 2
      and e = "''net::ERR_NAME_NOT_RESOLVED''"
      and page = "''Error: Could not scrape page. net::ERR_NAME_NOT_RESOLVED''"
      and email = "''me@example.org''" and secret = "''s3cret''"]
  by simp

lemma get_plan_from_llm_missing_submit_url:
  assumes "chat_completion env (PlanRequest page) (world s) = (Inr (PStr reply), w)"
    and "json_loads env reply = Inr (PDict d)"
    and "\<not> truthy (dict_get d ''submit_url'')"
  shows "get_plan_from_llm env page s
         = (error_plan (''LLM failed to find a submit_url. Plan: '' @ py_repr env (PDict d)),
            s\<lparr>world := w,
              trace := trace s @ [Call_get_plan_from_llm page, LLM_request (PlanRequest page)]\<rparr>)"
  using assms by (simp add: get_plan_from_llm_def chat_def ask_def emit_def loads_def)

lemma scrape_page_content_Content:
  assumes "page_render env u (world s) = (Content page, w)"
  shows "scrape_page_content env u s
         = (Inr page, s\<lparr>world := w, trace := trace s @ [Call_scrape_page_content u]\<rparr>)"
  using assms by (simp add: scrape_page_content_def ask_def emit_def)

lemma dict_has_error_plan: "dict_has (error_plan e) ''error''"
  by (simp add: dict_has_def error_plan_def)

lemma dict_get_error_plan: "dict_get (error_plan e) ''error'' = PStr e"
  by (simp add: dict_get_def error_plan_def)

text \<open>
  C3. If the completion parses to a plan whose \<^verbatim>\<open>submit_url\<close> is absent or empty (or any
  other value that \<^verbatim>\<open>not\<close> takes for false), the Plan Resolver returns the error marker,
  a dict with the key \<^verbatim>\<open>error\<close>, and the loop ends in that round with the
  planning-failure line; the Answer Resolver is not called.
\<close>

theorem missing_submit_url_terminates:
  assumes "truthy current_url"
    and "time_now env (world s) = (now, w1)" and "\<not> now - start_time > 170"
    and "page_render env current_url w1 = (Content page, w2)" and "\<not> prefix ''Error:'' page"
    and "chat_completion env (PlanRequest page) w2 = (Inr (PStr reply), w3)"
    and "json_loads env reply = Inr (PDict d)"
    and "\<not> truthy (dict_get d ''submit_url'')"
    and "msg = ''LLM failed to find a submit_url. Plan: '' @ py_repr env (PDict d)"
    and "evs = [Print New_task, Print (Processing_url current_url),
                Call_scrape_page_content current_url,
                Call_get_plan_from_llm page, LLM_request (PlanRequest page),
                Print (Failed_to_get_plan (PStr msg))]"
  shows "(\<forall>sp. world sp = w2 \<longrightarrow> fst (get_plan_from_llm env page sp) = error_plan msg)
       \<and> dict_has (error_plan msg) ''error''
       \<and> quiz_loop env start_time email secret current_url s
           = Some (s\<lparr>world := w3, trace := trace s @ evs\<rparr>)
       \<and> \<not> list_ex is_answer_call evs"
proof (intro conjI allI impI)
  fix sp :: "'a st" assume "world sp = w2"
  with assms(6-9) show "fst (get_plan_from_llm env page sp) = error_plan msg"
    by (simp add: get_plan_from_llm_missing_submit_url)
next
  show "dict_has (error_plan msg) ''error''" by (rule dict_has_error_plan)
next
  have sc: "scrape_page_content env current_url
              (s\<lparr>world := w1, trace := trace s @ [Print New_task, Print (Processing_url current_url)]\<rparr>)
            = (Inr page,
               s\<lparr>world := w2,
                 trace := trace s @ [Print New_task, Print (Processing_url current_url),
                                     Call_scrape_page_content current_url]\<rparr>)"
    using assms(4) by (simp add: scrape_page_content_Content)
  have pl: "get_plan_from_llm env page
              (s\<lparr>world := w2,
                 trace := trace s @ [Print New_task, Print (Processing_url current_url),
                                     Call_scrape_page_content current_url]\<rparr>)
            = (error_plan msg,
               s\<lparr>world := w3,
                 trace := trace s @ [Print New_task, Print (Processing_url current_url),
                                     Call_scrape_page_content current_url,
                                     Call_get_plan_from_llm page, LLM_request (PlanRequest page)]\<rparr>)"
    using assms(6-9) by (simp add: get_plan_from_llm_missing_submit_url)
  have "round_body env email secret current_url
          (s\<lparr>world := w1, trace := trace s @ [Print New_task, Print (Processing_url current_url)]\<rparr>)
        = (Inr Break, s\<lparr>world := w3, trace := trace s @ evs\<rparr>)"
    using assms(5)
    by (simp add: round_body_def sc pl dict_has_error_plan dict_get_error_plan assms(10) emit_def)
  then have "loop_iteration env start_time email secret current_url s
        = (Break, s\<lparr>world := w3, trace := trace s @ evs\<rparr>)"
    using assms(2) within_budget [OF assms(3)]
    by (simp add: loop_iteration_def ask_def emit_def)
  with assms(1) show "quiz_loop env start_time email secret current_url s
           = Some (s\<lparr>world := w3, trace := trace s @ evs\<rparr>)"
    by (simp add: quiz_loop_break)
next
  show "\<not> list_ex is_answer_call evs" by (simp add: assms(10))
qed


text \<open>
  C3 in the scripted world: the plan has a question and no \<^verbatim>\<open>submit_url\<close>.
\<close>

theorem missing_submit_url_terminates_witness:
  "truthy (PStr ''https://h/p/q'')
   \<and> \<not> truthy (dict_get [(''question'', PStr ''Q. Get the secret code'')] ''submit_url'')
   \<and> fst (get_plan_from_llm
          (script_env (Content ''<p>Q. Get the secret code</p>'')
             (Inr (PDict [(''question'', PStr ''Q. Get the secret code'')])) (Inl ''x'') (Inl ''x''))
          ''<p>Q. Get the secret code</p>'' \<lparr>world = 2, trace = []\<rparr>)
       = error_plan ''LLM failed to find a submit_url. Plan: {}''
   \<and> quiz_loop
        (script_env (Content ''<p>Q. Get the secret code</p>'')
           (Inr (PDict [(''question'', PStr ''Q. Get the secret code'')])) (Inl ''x'') (Inl ''x''))
        0 ''me@example.org'' ''s3cret'' (PStr ''https://h/p/q'') \<lparr>world = 0, trace = []\<rparr>
      = Some \<lparr>world = 7,
               trace = [Print New_task, Print (Processing_url (PStr ''https://h/p/q'')),
                        Call_scrape_page_content (PStr ''https://h/p/q''),
                        Call_get_plan_from_llm ''<p>Q. Get the secret code</p>'',
                        LLM_request (PlanRequest ''<p>Q. Get the secret code</p>''),
                        Print (Failed_to_get_plan
                          (PStr ''LLM failed to find a submit_url. Plan: {}''))]\<rparr>"
  using missing_submit_url_terminates [where current_url = "PStr ''https://h/p/q''"
      and env = "script_env (Content ''<p>Q. Get the secret code</p>'')
                   (Inr (PDict [(''question'', PStr ''Q. Get the secret code'')])) (Inl ''x'') (Inl ''x'')"
      and s = "\<lparr>world = 0, trace = []\<rparr>" and now = 0 and ?w1.0 = 0 and start_time = 0
      and page = "''<p>Q. Get the secret code</p>''" and ?w2.0 = 2 and reply = "''{}''" and ?w3.0 = 7
      and d = "[(''question'', PStr ''Q. Get the secret code'')]"
      and msg = "''LLM failed to find a submit_url. Plan: {}''"
      and evs = "[Print New_task, Print (Processing_url (PStr ''https://h/p/q'')),
                        Call_scrape_page_content (PStr ''https://h/p/q''),
                        Call_get_plan_from_llm ''<p>Q. Get the secret code</p>'',
                        LLM_request (PlanRequest ''<p>Q. Get the secret code</p>''),
                        Print (Failed_to_get_plan
                          (PStr ''LLM failed to find a submit_url. Plan: {}''))]"
      and email = "''me@example.org''" and secret = "''s3cret''"]
  by (simp add: dict_get_def)

lemma emits_mono: "(\<And>e. P e \<Longrightarrow> Q e) \<Longrightarrow> emits P s s1 \<Longrightarrow> emits Q s s1"
  by (auto simp: emits_def list_all_iff)

lemma plan_message_not_failure: "plan_message m \<Longrightarrow> \<not> is_plan_failure (Print m)"
  by (cases m) simp_all

lemma plan_event_not_failure: "plan_event du su e \<Longrightarrow> \<not> is_plan_failure e"
  by (cases e) (simp_all add: plan_message_not_failure)

lemma execute_plan_no_plan_failure:
  "emits (\<lambda>e. \<not> is_plan_failure e) s (snd (execute_plan env email secret cur page plan s))"
proof (cases "resolve_url env cur (dict_get plan ''data_url'')")
  case (Inl e)
  then show ?thesis by (simp add: execute_plan_def emits_refl)
next
  case du: (Inr du)
  show ?thesis
  proof (cases "resolve_url env cur (dict_get plan ''submit_url'')")
    case (Inl e)
    with du show ?thesis by (simp add: execute_plan_def emits_refl)
  next
    case (Inr su)
    have "emits (plan_event du su) s (snd (execute_plan env email secret cur page plan s))"
      using execute_plan_emits [OF du Inr] by (metis prod.collapse)
    then show ?thesis
      by (rule emits_mono [rotated]) (rule plan_event_not_failure)
  qed
qed

lemma get_plan_from_llm_keeps_plan:
  assumes "chat_completion env (PlanRequest page) (world s) = (Inr (PStr reply), w)"
    and "json_loads env reply = Inr (PDict d)"
    and "truthy (dict_get d ''submit_url'')"
  shows "fst (get_plan_from_llm env page s) = d"
  using assms by (simp add: get_plan_from_llm_def chat_def ask_def emit_def loads_def)

text \<open>
  C9. The loop recognises a planning failure by the key \<^verbatim>\<open>error\<close> alone. For every dict
  \<open>plan\<close> that the Plan Resolver returns: with the key, the round ends with the
  planning-failure line; without it, the round goes on and prints no planning-failure
  line. A completion whose plan has a non-empty \<^verbatim>\<open>submit_url\<close> and also a key \<^verbatim>\<open>error\<close>
  is returned by the Plan Resolver as it is, and so ends the round as a planning failure.
\<close>

theorem planning_failure_by_key:
  assumes "scrape_page_content env current_url s = (Inr page, s1)"
    and "\<not> prefix ''Error:'' page"
    and "get_plan_from_llm env page s1 = (plan, s2)"
  shows "(dict_has plan ''error'' \<longrightarrow>
            round_body env email secret current_url s
            = (Inr Break, emit (Print (Failed_to_get_plan (dict_get plan ''error''))) s2))
       \<and> (\<not> dict_has plan ''error'' \<longrightarrow>
            emits (\<lambda>e. \<not> is_plan_failure e) s2
              (snd (round_body env email secret current_url s)))
       \<and> (chat_completion env (PlanRequest page) (world s1) = (Inr (PStr reply), w)
            \<and> json_loads env reply = Inr (PDict d)
            \<and> truthy (dict_get d ''submit_url'') \<and> dict_has d ''error'' \<longrightarrow>
            plan = d
            \<and> round_body env email secret current_url s
              = (Inr Break, emit (Print (Failed_to_get_plan (dict_get d ''error''))) s2))"
proof (intro conjI impI)
  assume "dict_has plan ''error''"
  with assms show "round_body env email secret current_url s
            = (Inr Break, emit (Print (Failed_to_get_plan (dict_get plan ''error''))) s2)"
    by (simp add: round_body_def)
next
  assume no: "\<not> dict_has plan ''error''"
  let ?s3 = "emit (Print (Plan_received (dict_get plan ''question''))) s2"
  have "emits (\<lambda>e. \<not> is_plan_failure e) s2 ?s3"
    by (rule emits_emit) simp
  moreover have "emits (\<lambda>e. \<not> is_plan_failure e) ?s3
                   (snd (execute_plan env email secret current_url page plan ?s3))"
    by (rule execute_plan_no_plan_failure)
  ultimately have "emits (\<lambda>e. \<not> is_plan_failure e) s2
                   (snd (execute_plan env email secret current_url page plan ?s3))"
    by (rule emits_trans)
  with assms no show "emits (\<lambda>e. \<not> is_plan_failure e) s2
              (snd (round_body env email secret current_url s))"
    by (simp add: round_body_def)
next
  assume a: "chat_completion env (PlanRequest page) (world s1) = (Inr (PStr reply), w)
            \<and> json_loads env reply = Inr (PDict d)
            \<and> truthy (dict_get d ''submit_url'') \<and> dict_has d ''error''"
  then have "fst (get_plan_from_llm env page s1) = d"
    by (simp add: get_plan_from_llm_keeps_plan)
  with assms(3) show "plan = d" by simp
  with a assms show "round_body env email secret current_url s
              = (Inr Break, emit (Print (Failed_to_get_plan (dict_get d ''error''))) s2)"
    by (simp add: round_body_def)
qed


lemma get_answer_from_llm_prefix:
  "prefix (trace s @ [Call_get_answer_from_llm q c])
     (trace (snd (get_answer_from_llm env q c s)))"
  by (simp add: get_answer_from_llm_def chat_def ask_def emit_def Let_def
      split: prod.splits sum.splits pyval.splits)

lemma execute_plan_answers:
  assumes "resolve_url env cur (dict_get plan ''data_url'') = Inr du"
    and "resolve_url env cur (dict_get plan ''submit_url'') = Inr su"
  shows "prefix (trace (snd (acquire_data env du page s))
                 @ [Call_get_answer_from_llm (dict_get plan ''question'')
                      (fst (acquire_data env du page s))])
           (trace (snd (execute_plan env email secret cur page plan s)))"
proof -
  obtain c s1 where a: "acquire_data env du page s = (c, s1)"
    by (cases "acquire_data env du page s")
  obtain ra s2 where g: "get_answer_from_llm env (dict_get plan ''question'') c s1 = (ra, s2)"
    by (cases "get_answer_from_llm env (dict_get plan ''question'') c s1")
  have p: "prefix (trace s1 @ [Call_get_answer_from_llm (dict_get plan ''question'') c]) (trace s2)"
    using get_answer_from_llm_prefix [of s1 "dict_get plan ''question''" c env] g by simp
  show ?thesis
  proof (cases ra)
    case (Inl e)
    with assms a g p show ?thesis by (simp add: execute_plan_def)
  next
    case (Inr ans)
    obtain rs s3 where
      sub: "submit_answer env email secret cur su ans (emit (Print (Final_answer ans)) s2) = (rs, s3)"
      by (cases "submit_answer env email secret cur su ans (emit (Print (Final_answer ans)) s2)")
    have "prefix (trace s2) (trace s3)"
      using submit_answer_emits [OF sub, of du] by (auto simp: emits_def)
    with p have "prefix (trace s1 @ [Call_get_answer_from_llm (dict_get plan ''question'') c])
                   (trace s3)"
      by (rule prefix_order.trans)
    with assms a g Inr sub show ?thesis
      by (auto simp: execute_plan_def split: sum.splits)
  qed
qed

text \<open>
  C6. For a round with a data URL: an exception of the download, or of the extraction
  that follows it, turns the data context into the text \<^verbatim>\<open>Error processing file: ...\<close>;
  otherwise the saved path selects the extractor (\<^verbatim>\<open>.pdf\<close> the PDF text, else \<^verbatim>\<open>.csv\<close> the
  CSV text, else a placeholder that names the path). In every case the round goes on:
  the Answer Resolver is called with the question and that data context.
\<close>

theorem data_failures_degrade:
  assumes "truthy data_url"
    and "download_file env data_url ''temp_data'' (emit (Print (Data_url_found data_url)) s) = (dl, s1)"
  shows "(dl = Inl e \<longrightarrow>
            acquire_data env data_url page s
            = (''Error processing file: '' @ e, emit (Print (Failed_to_process_file e)) s1))
       \<and> (dl = Inr path \<and> suffix ''.pdf'' path \<and> get_text_from_pdf env path s1 = (Inl e, s2) \<longrightarrow>
            acquire_data env data_url page s
            = (''Error processing file: '' @ e, emit (Print (Failed_to_process_file e)) s2))
       \<and> (dl = Inr path \<and> suffix ''.pdf'' path \<and> get_text_from_pdf env path s1 = (Inr t, s2) \<longrightarrow>
            acquire_data env data_url page s = (t, s2))
       \<and> (dl = Inr path \<and> \<not> suffix ''.pdf'' path \<and> suffix ''.csv'' path
            \<and> get_text_from_csv env path s1 = (Inl e, s2) \<longrightarrow>
            acquire_data env data_url page s
            = (''Error processing file: '' @ e, emit (Print (Failed_to_process_file e)) s2))
       \<and> (dl = Inr path \<and> \<not> suffix ''.pdf'' path \<and> suffix ''.csv'' path
            \<and> get_text_from_csv env path s1 = (Inr t, s2) \<longrightarrow>
            acquire_data env data_url page s = (t, s2))
       \<and> (dl = Inr path \<and> \<not> suffix ''.pdf'' path \<and> \<not> suffix ''.csv'' path \<longrightarrow>
            acquire_data env data_url page s = (''File downloaded to: '' @ path, s1))
       \<and> (resolve_url env cur (dict_get plan ''data_url'') = Inr data_url
            \<and> resolve_url env cur (dict_get plan ''submit_url'') = Inr su \<longrightarrow>
            prefix (trace (snd (acquire_data env data_url page s))
                    @ [Call_get_answer_from_llm (dict_get plan ''question'')
                         (fst (acquire_data env data_url page s))])
              (trace (snd (execute_plan env email secret cur page plan s))))"
proof (intro conjI impI)
  show "prefix (trace (snd (acquire_data env data_url page s))
                    @ [Call_get_answer_from_llm (dict_get plan ''question'')
                         (fst (acquire_data env data_url page s))])
              (trace (snd (execute_plan env email secret cur page plan s)))"
    if "resolve_url env cur (dict_get plan ''data_url'') = Inr data_url
            \<and> resolve_url env cur (dict_get plan ''submit_url'') = Inr su"
    using that by (simp add: execute_plan_answers)
qed (use assms in \<open>simp_all add: acquire_data_def processing_failed_def\<close>)

lemma download_file_ok:
  assumes "makedirs env dir (world s) = (None, w1)"
    and "http_get env u w1 = (Inr response, w2)"
    and "write_file env (dir @ ''/'' @ download_filename u) (response_content response) w2 = (None, w3)"
  shows "download_file env (PStr u) dir s
         = (Inr (dir @ ''/'' @ download_filename u),
            s\<lparr>world := w3,
              trace := trace s @ [Call_download_file (PStr u) dir, Http_get u,
                                  File_write (dir @ ''/'' @ download_filename u)
                                    (response_content response)]\<rparr>)"
  using assms by (simp add: download_file_def ask_def emit_def Let_def)

text \<open>
  C10. The File Retriever does not look at the status of the response. Whenever the
  request returns a response, with whatever status, its body is written to the path
  derived from the URL and the path is returned; the download does not fail. In the
  agent loop the data context is then what the extractor chosen by the suffix makes of
  the saved body, so a failure can show only there.
\<close>

theorem download_ignores_status:
  assumes "makedirs env dir w0 = (None, w1)"
    and "http_get env u w1 = (Inr response, w2)"
    and "write_file env path (response_content response) w2 = (None, w3)"
    and "path = dir @ ''/'' @ download_filename u"
  shows "(\<forall>s. world s = w0 \<longrightarrow>
            download_file env (PStr u) dir s
            = (Inr path,
               s\<lparr>world := w3,
                 trace := trace s @ [Call_download_file (PStr u) dir, Http_get u,
                                     File_write path (response_content response)]\<rparr>))
       \<and> (dir = ''temp_data'' \<and> u \<noteq> [] \<longrightarrow>
           (\<forall>s. world s = w0 \<longrightarrow>
              acquire_data env (PStr u) page s
              = (let sd = s\<lparr>world := w3,
                            trace := trace s @ [Print (Data_url_found (PStr u)),
                                                Call_download_file (PStr u) dir, Http_get u,
                                                File_write path (response_content response)]\<rparr>
                 in if suffix ''.pdf'' path
                    then (case get_text_from_pdf env path sd of
                            (Inl e, s2) \<Rightarrow> processing_failed e s2
                          | (Inr t, s2) \<Rightarrow> (t, s2))
                    else if suffix ''.csv'' path
                    then (case get_text_from_csv env path sd of
                            (Inl e, s2) \<Rightarrow> processing_failed e s2
                          | (Inr t, s2) \<Rightarrow> (t, s2))
                    else (''File downloaded to: '' @ path, sd))))"
proof (intro conjI allI impI)
  fix s :: "'a st" assume "world s = w0"
  with assms show "download_file env (PStr u) dir s
            = (Inr path,
               s\<lparr>world := w3,
                 trace := trace s @ [Call_download_file (PStr u) dir, Http_get u,
                                     File_write path (response_content response)]\<rparr>)"
    by (simp add: download_file_ok)
next
  fix s :: "'a st" assume d: "dir = ''temp_data'' \<and> u \<noteq> []" and w: "world s = w0"
  have "download_file env (PStr u) ''temp_data''
          (s\<lparr>trace := trace s @ [Print (Data_url_found (PStr u))]\<rparr>)
        = (Inr path,
           s\<lparr>world := w3,
             trace := trace s @ [Print (Data_url_found (PStr u)),
                                 Call_download_file (PStr u) dir, Http_get u,
                                 File_write path (response_content response)]\<rparr>)"
    using assms d w
      download_file_ok [of env dir "s\<lparr>trace := trace s @ [Print (Data_url_found (PStr u))]\<rparr>"
                           w1 u response w2 w3]
    by simp
  with d show "acquire_data env (PStr u) page s
              = (let sd = s\<lparr>world := w3,
                            trace := trace s @ [Print (Data_url_found (PStr u)),
                                                Call_download_file (PStr u) dir, Http_get u,
                                                File_write path (response_content response)]\<rparr>
                 in if suffix ''.pdf'' path
                    then (case get_text_from_pdf env path sd of
                            (Inl e, s2) \<Rightarrow> processing_failed e s2
                          | (Inr t, s2) \<Rightarrow> (t, s2))
                    else if suffix ''.csv'' path
                    then (case get_text_from_csv env path sd of
                            (Inl e, s2) \<Rightarrow> processing_failed e s2
                          | (Inr t, s2) \<Rightarrow> (t, s2))
                    else (''File downloaded to: '' @ path, sd))"
    by (simp add: acquire_data_def emit_def Let_def)
qed

lemma process_result_dict:
  "process_result (PDict d) s
   = (Inr (dict_get d ''url''),
      s\<lparr>trace := trace s @
           (if equals_True (dict_get d ''correct'')
            then Print Answer_correct
                 # (if truthy (dict_get d ''url'') then [] else [Print Quiz_complete])
            else Print (Answer_wrong (dict_get d ''reason''))
                 # (if truthy (dict_get d ''url'') then [] else [Print Quiz_ended_wrong]))\<rparr>)"
  by (simp add: process_result_def emit_def Let_def)

lemma dict_get_absent: "map_of d k = None \<Longrightarrow> dict_get d k = PNone"
  by (simp add: dict_get_def)

lemma scrape_page_content_no_crash:
  "scrape_page_content env u s = (r, s1) \<Longrightarrow> emits (\<lambda>e. \<not> is_crash e) s s1"
  by (auto simp: scrape_page_content_def emits_def ask_def emit_def
      split: prod.splits render_result.splits)

lemma get_plan_from_llm_no_crash:
  "get_plan_from_llm env page s = (plan, s1) \<Longrightarrow> emits (\<lambda>e. \<not> is_crash e) s s1"
  by (auto simp: get_plan_from_llm_def chat_def emits_def ask_def emit_def
      split: prod.splits sum.splits pyval.splits if_splits)

lemma plan_message_not_crash: "plan_message m \<Longrightarrow> \<not> is_crash (Print m)"
  by (cases m) simp_all

lemma plan_event_not_crash: "plan_event du su e \<Longrightarrow> \<not> is_crash e"
  by (cases e) (simp_all add: plan_message_not_crash)

lemma dict_get_null: "map_of d k = Some PNone \<Longrightarrow> dict_get d k = PNone"
  by (simp add: dict_get_def)

text \<open>
  C7. For a round that reaches the submission and whose POST returns a dict \<open>d\<close>: the
  pass through the loop body ends with \<^verbatim>\<open>current_url\<close> set to \<^verbatim>\<open>d.get("url")\<close>, whatever
  \<^verbatim>\<open>d.get("correct")\<close> is, the loop goes on from that URL, and the round has printed no
  error. If \<open>d\<close> has no follow-up URL (the key is absent, or its value is \<^verbatim>\<open>null\<close> or
  another value that the loop test takes for false), the loop ends there, and the last
  line printed is the one of a completed quiz or of a quiz ended on a wrong answer.
\<close>

theorem continuation_rule:
  assumes "truthy current_url"
    and "time_now env (world s) = (now, w1)" and "\<not> now - start_time > 170"
    and "scrape_page_content env current_url
           (emit (Print (Processing_url current_url)) (emit (Print New_task) (s\<lparr>world := w1\<rparr>)))
         = (Inr page, sa)"
    and "\<not> prefix ''Error:'' page"
    and "get_plan_from_llm env page sa = (plan, sb)" and "\<not> dict_has plan ''error''"
    and "resolve_url env current_url (dict_get plan ''data_url'') = Inr du"
    and "resolve_url env current_url (dict_get plan ''submit_url'') = Inr su"
    and "acquire_data env du page (emit (Print (Plan_received (dict_get plan ''question''))) sb)
         = (ctx, sc)"
    and "get_answer_from_llm env (dict_get plan ''question'') ctx sc = (Inr ans, sd)"
    and "post_json env su (submission_payload email secret current_url ans) (world sd)
         = (Inr (PDict d), w2)"
  shows "\<exists>s'. loop_iteration env start_time email secret current_url s
              = (Next (dict_get d ''url''), s')
            \<and> quiz_loop env start_time email secret current_url s
              = quiz_loop env start_time email secret (dict_get d ''url'') s'
            \<and> emits (\<lambda>e. \<not> is_crash e) s s'
            \<and> (\<not> truthy (dict_get d ''url'') \<longrightarrow>
                 quiz_loop env start_time email secret current_url s = Some s'
                 \<and> last (trace s')
                   = Print (if equals_True (dict_get d ''correct'')
                            then Quiz_complete else Quiz_ended_wrong))
            \<and> (map_of d ''url'' = None \<or> map_of d ''url'' = Some PNone \<longrightarrow>
                 \<not> truthy (dict_get d ''url''))"
proof -
  let ?s0 = "emit (Print (Processing_url current_url)) (emit (Print New_task) (s\<lparr>world := w1\<rparr>))"
  let ?sp = "emit (Print (Plan_received (dict_get plan ''question''))) sb"
  let ?se = "emit (Post_submission su (submission_payload email secret current_url ans))
               (emit (Print (Submitting_to su)) (emit (Print (Final_answer ans)) sd))"
  obtain s' where pr: "process_result (PDict d) (?se\<lparr>world := w2\<rparr>) = (Inr (dict_get d ''url''), s')"
    and tr: "trace s' = trace (?se\<lparr>world := w2\<rparr>) @
           (if equals_True (dict_get d ''correct'')
            then Print Answer_correct
                 # (if truthy (dict_get d ''url'') then [] else [Print Quiz_complete])
            else Print (Answer_wrong (dict_get d ''reason''))
                 # (if truthy (dict_get d ''url'') then [] else [Print Quiz_ended_wrong]))"
    by (simp add: process_result_dict)
  have sub: "submit_answer env email secret current_url su ans (emit (Print (Final_answer ans)) sd)
             = (Inr (dict_get d ''url''), s')"
    using assms(12) pr by (simp add: submit_answer_def Let_def ask_def)
  have ex: "execute_plan env email secret current_url page plan ?sp
            = (Inr (Next (dict_get d ''url'')), s')"
    using assms(8-11) sub by (simp add: execute_plan_def Let_def)
  have rb: "round_body env email secret current_url ?s0 = (Inr (Next (dict_get d ''url'')), s')"
    using assms(4-7) ex by (simp add: round_body_def)
  have li: "loop_iteration env start_time email secret current_url s
            = (Next (dict_get d ''url''), s')"
    using assms(2) within_budget [OF assms(3)] rb by (simp add: loop_iteration_def ask_def)
  have ql: "quiz_loop env start_time email secret current_url s
            = quiz_loop env start_time email secret (dict_get d ''url'') s'"
    using assms(1) li by (rule quiz_loop_next)
  have e1: "emits (\<lambda>e. \<not> is_crash e) s ?s0"
    by (simp add: emits_def emit_def)
  have e2: "emits (\<lambda>e. \<not> is_crash e) ?s0 sa"
    using assms(4) by (rule scrape_page_content_no_crash)
  have e3: "emits (\<lambda>e. \<not> is_crash e) sa sb"
    using assms(6) by (rule get_plan_from_llm_no_crash)
  have e4: "emits (\<lambda>e. \<not> is_crash e) sb ?sp"
    by (simp add: emits_def)
  have "emits (plan_event du su) ?sp s'"
    using assms(8,9) ex by (rule execute_plan_emits)
  then have e5: "emits (\<lambda>e. \<not> is_crash e) ?sp s'"
    by (rule emits_mono [rotated]) (rule plan_event_not_crash)
  have clean: "emits (\<lambda>e. \<not> is_crash e) s s'"
    using e1 e2 e3 e4 e5 by (blast intro: emits_trans)
  have fin: "\<not> truthy (dict_get d ''url'') \<longrightarrow>
             quiz_loop env start_time email secret current_url s = Some s'
             \<and> last (trace s') = Print (if equals_True (dict_get d ''correct'')
                                         then Quiz_complete else Quiz_ended_wrong)"
    using ql tr by (simp add: quiz_loop_stop)
  have nul: "map_of d ''url'' = None \<or> map_of d ''url'' = Some PNone \<longrightarrow>
             \<not> truthy (dict_get d ''url'')"
    by (auto simp: dict_get_absent dict_get_null)
  show ?thesis
  proof (intro exI conjI)
    show "loop_iteration env start_time email secret current_url s
          = (Next (dict_get d ''url''), s')"
      by (rule li)
    show "quiz_loop env start_time email secret current_url s
          = quiz_loop env start_time email secret (dict_get d ''url'') s'"
      by (rule ql)
    show "emits (\<lambda>e. \<not> is_crash e) s s'"
      by (rule clean)
    show "\<not> truthy (dict_get d ''url'') \<longrightarrow>
             quiz_loop env start_time email secret current_url s = Some s'
             \<and> last (trace s') = Print (if equals_True (dict_get d ''correct'')
                                         then Quiz_complete else Quiz_ended_wrong)"
      by (rule fin)
    show "map_of d ''url'' = None \<or> map_of d ''url'' = Some PNone \<longrightarrow>
             \<not> truthy (dict_get d ''url'')"
      by (rule nul)
  qed
qed

text \<open>
  C8. If the secret or the email of the payload differs from the configured value, the
  endpoint raises the HTTP exception 403 and schedules nothing. If both match, it
  schedules one background task, the agent loop on the payload's email, secret and
  URL, and returns the fixed acknowledgment.
\<close>

theorem trigger_authorization:
  "(Some (payload_secret payload) \<noteq> MY_SECRET cfg \<or> Some (payload_email payload) \<noteq> MY_EMAIL cfg
      \<longrightarrow> (\<exists>detail. start_quiz cfg payload background_tasks
                        = (Inl (HTTPException 403 detail), background_tasks)))
   \<and> (Some (payload_secret payload) = MY_SECRET cfg \<and> Some (payload_email payload) = MY_EMAIL cfg
      \<longrightarrow> start_quiz cfg payload background_tasks
          = (Inr \<lparr>api_status = ''accepted'',
                   api_message = ''Quiz task accepted and is processing in the background.''\<rparr>,
             background_tasks
               @ [Run_quiz_solver_background (payload_email payload) (payload_secret payload)
                    (payload_url payload)]))"
  by (simp add: start_quiz_def)

section \<open>Properties of URL resolution, and runs of the scripted world\<close>

lemma split_scheme_SomeD:
  assumes "split_scheme u = Some (name, rest)"
  shows "name \<noteq> [] \<and> CHR '':'' \<notin> set name \<and> is_alpha (hd name)
         \<and> list_all is_scheme_char (tl name) \<and> u = name @ CHR '':'' # rest"
proof -
  let ?n = "takeWhile (\<lambda>c. c \<noteq> CHR '':'') u" and ?r = "dropWhile (\<lambda>c. c \<noteq> CHR '':'') u"
  from assms have n: "name = ?n" and ne: "?n \<noteq> []" and r: "?r \<noteq> []" and rest: "rest = tl ?r"
    and al: "is_alpha (hd ?n)" and sc: "list_all is_scheme_char (tl ?n)"
    by (auto simp: split_scheme_def Let_def split: list.splits if_splits)
  have "hd ?r = CHR '':''"
    using r hd_dropWhile [of "\<lambda>c. c \<noteq> CHR '':''" u] by auto
  with r rest have "?r = CHR '':'' # rest" by (cases ?r) auto
  then have "u = ?n @ CHR '':'' # rest"
    using takeWhile_dropWhile_id [of "\<lambda>c. c \<noteq> CHR '':''" u] by simp
  moreover have "CHR '':'' \<notin> set ?n"
    using set_takeWhileD by fastforce
  ultimately show ?thesis using n ne al sc by simp
qed

lemma split_scheme_rebuild:
  assumes "name \<noteq> []" "CHR '':'' \<notin> set name" "is_alpha (hd name)"
    "list_all is_scheme_char (tl name)"
  shows "split_scheme (name @ CHR '':'' # rest) = Some (name, rest)"
proof -
  have t: "takeWhile (\<lambda>c. c \<noteq> CHR '':'') (name @ CHR '':'' # rest) = name"
    using assms(2) by (subst takeWhile_append2) auto
  have d: "dropWhile (\<lambda>c. c \<noteq> CHR '':'') (name @ CHR '':'' # rest) = CHR '':'' # rest"
    using assms(2) by (subst dropWhile_append2) auto
  obtain c cs where n: "name = c # cs" using assms(1) by (cases name) auto
  have "split_scheme (name @ CHR '':'' # rest)
        = (case name of [] \<Rightarrow> None
           | c # cs \<Rightarrow> if CHR '':'' # rest \<noteq> [] \<and> is_alpha c \<and> list_all is_scheme_char cs
                       then Some (name, tl (CHR '':'' # rest)) else None)"
    unfolding split_scheme_def Let_def t d ..
  also have "\<dots> = Some (name, rest)"
    using assms(3,4) by (simp add: n)
  finally show ?thesis .
qed

lemma urljoin_absolute: "split_scheme url \<noteq> None \<Longrightarrow> urljoin base url = url"
  by (auto simp: urljoin_def)

lemma urljoin_idempotent:
  assumes "split_scheme base \<noteq> None"
  shows "urljoin base (urljoin base url) = urljoin base url"
proof (cases "split_scheme url")
  case (Some x)
  then show ?thesis by (simp add: urljoin_def)
next
  case None
  from assms obtain name rest where b: "split_scheme base = Some (name, rest)" by auto
  let ?t = "unparse_ref (resolve_ref (parse_ref rest) (parse_ref url))"
  have j: "urljoin base url = name @ CHR '':'' # ?t"
    using None b by (simp add: urljoin_def)
  have "split_scheme (name @ CHR '':'' # ?t) = Some (name, ?t)"
    using split_scheme_SomeD [OF b] by (intro split_scheme_rebuild) simp_all
  then show ?thesis
    unfolding j by (simp add: urljoin_def)
qed

lemmas url_eval = urljoin_def split_scheme_def is_alpha_def is_scheme_char_def is_digit_def
  parse_ref_def cut_def resolve_ref_def merge_paths_def remove_dot_segments_def unparse_ref_def
  with_mark_def Let_def

lemma urljoin_relative: "urljoin ''https://h/p/q'' ''data.csv'' = ''https://h/p/data.csv''"
  by (simp add: url_eval)

lemma urljoin_root_relative: "urljoin ''https://h/p/q'' ''/data.csv'' = ''https://h/data.csv''"
  by (simp add: url_eval)

lemma urljoin_submit: "urljoin ''https://h/p/q'' ''/submit'' = ''https://h/submit''"
  by (simp add: url_eval)

lemma urljoin_other_host:
  "urljoin ''https://h/p/q'' ''https://files.example.org/d/data.csv''
   = ''https://files.example.org/d/data.csv''"
  by (simp add: url_eval)

lemma split_scheme_base: "split_scheme ''https://h/p/q'' = Some (''https'', ''//h/p/q'')"
  by (simp add: split_scheme_def is_alpha_def is_scheme_char_def is_digit_def)


lemma script_scrape:
  "scrape_page_content (script_env (Content p) pl dl rs) u s
   = (Inr p, s\<lparr>world := world s + 2, trace := trace s @ [Call_scrape_page_content u]\<rparr>)"
  by (simp add: scrape_page_content_def ask_def emit_def)

lemma script_plan:
  "truthy (dict_get d ''submit_url'') \<Longrightarrow>
   get_plan_from_llm (script_env pg (Inr (PDict d)) dl rs) p s
   = (d, s\<lparr>world := world s + 5,
            trace := trace s @ [Call_get_plan_from_llm p, LLM_request (PlanRequest p)]\<rparr>)"
  by (simp add: get_plan_from_llm_def chat_def ask_def emit_def loads_def)

lemma script_answer:
  "sliceable q \<Longrightarrow>
   get_answer_from_llm (script_env pg pl dl rs) q c s
   = (Inr (PInt 29172),
      s\<lparr>world := world s + 5,
        trace := trace s @ [Call_get_answer_from_llm q c, LLM_request (AnswerRequest q c)]\<rparr>)"
  by (simp add: get_answer_from_llm_def chat_def ask_def emit_def postprocess_29172)

lemma script_join:
  "resolve_url (script_env pg pl dl rs) (PStr b) (PStr (c # cs)) = Inr (PStr (urljoin b (c # cs)))"
  "resolve_url (script_env pg pl dl rs) (PStr b) PNone = Inr PNone"
  by (simp_all add: resolve_url_def urljoin_call_def)

text \<open>
  C7 in the scripted world: a wrong answer with a follow-up URL, a correct answer whose
  \<^verbatim>\<open>url\<close> is \<^verbatim>\<open>null\<close>, and a correct answer without the key.
\<close>

theorem continuation_rule_witness:
  "fst (loop_iteration
          (script_env (Content ''<p>Q. Get the secret code</p>'')
             (Inr (PDict [(''question'', PStr ''Q. Get the secret code''),
                          (''data_url'', PNone), (''submit_url'', PStr ''/submit'')]))
             (Inl ''unused'')
             (Inr (PDict [(''correct'', PBool False), (''reason'', PStr ''Wrong code''),
                          (''url'', PStr ''https://h/p/q2'')])))
          0 ''me@example.org'' ''s3cret'' (PStr ''https://h/p/q'') \<lparr>world = 0, trace = []\<rparr>)
   = Next (PStr ''https://h/p/q2'')
   \<and> (\<exists>s'. quiz_loop
          (script_env (Content ''<p>Q. Get the secret code</p>'')
             (Inr (PDict [(''question'', PStr ''Q. Get the secret code''),
                          (''data_url'', PNone), (''submit_url'', PStr ''/submit'')]))
             (Inl ''unused'')
             (Inr (PDict [(''correct'', PBool True), (''url'', PNone)])))
          0 ''me@example.org'' ''s3cret'' (PStr ''https://h/p/q'') \<lparr>world = 0, trace = []\<rparr>
        = Some s' \<and> last (trace s') = Print Quiz_complete
        \<and> \<not> list_ex is_crash (trace s'))
   \<and> (\<exists>s'. quiz_loop
          (script_env (Content ''<p>Q. Get the secret code</p>'')
             (Inr (PDict [(''question'', PStr ''Q. Get the secret code''),
                          (''data_url'', PNone), (''submit_url'', PStr ''/submit'')]))
             (Inl ''unused'')
             (Inr (PDict [(''correct'', PBool False)])))
          0 ''me@example.org'' ''s3cret'' (PStr ''https://h/p/q'') \<lparr>world = 0, trace = []\<rparr>
        = Some s' \<and> last (trace s') = Print Quiz_ended_wrong
        \<and> \<not> list_ex is_crash (trace s'))"
proof -
  let ?P = "''<p>Q. Get the secret code</p>''"
  let ?D = "[(''question'', PStr ''Q. Get the secret code''),
             (''data_url'', PNone), (''submit_url'', PStr ''/submit'')]"
  let ?cur = "PStr ''https://h/p/q''"
  let ?S0 = "\<lparr>world = 0 :: nat, trace = []\<rparr>"
  have run: "\<exists>s'. loop_iteration (script_env (Content ?P) (Inr (PDict ?D)) (Inl ''unused'') (Inr (PDict R)))
                    0 ''me@example.org'' ''s3cret'' ?cur ?S0 = (Next (dict_get R ''url''), s')
            \<and> quiz_loop (script_env (Content ?P) (Inr (PDict ?D)) (Inl ''unused'') (Inr (PDict R)))
                    0 ''me@example.org'' ''s3cret'' ?cur ?S0
              = quiz_loop (script_env (Content ?P) (Inr (PDict ?D)) (Inl ''unused'') (Inr (PDict R)))
                    0 ''me@example.org'' ''s3cret'' (dict_get R ''url'') s'
            \<and> emits (\<lambda>e. \<not> is_crash e) ?S0 s'
            \<and> (\<not> truthy (dict_get R ''url'') \<longrightarrow>
                 quiz_loop (script_env (Content ?P) (Inr (PDict ?D)) (Inl ''unused'') (Inr (PDict R)))
                    0 ''me@example.org'' ''s3cret'' ?cur ?S0 = Some s'
                 \<and> last (trace s')
                   = Print (if equals_True (dict_get R ''correct'')
                            then Quiz_complete else Quiz_ended_wrong))
            \<and> (map_of R ''url'' = None \<or> map_of R ''url'' = Some PNone \<longrightarrow>
                 \<not> truthy (dict_get R ''url''))" for R
  proof -
    let ?E = "script_env (Content ?P) (Inr (PDict ?D)) (Inl ''unused'') (Inr (PDict R))"
    let ?S1 = "emit (Print (Processing_url ?cur)) (emit (Print New_task) (?S0\<lparr>world := 0\<rparr>))"
    let ?S2 = "snd (scrape_page_content ?E ?cur ?S1)"
    let ?S3 = "snd (get_plan_from_llm ?E ?P ?S2)"
    let ?S4 = "emit (Print (Plan_received (dict_get ?D ''question''))) ?S3"
    let ?S5 = "snd (get_answer_from_llm ?E (dict_get ?D ''question'') ?P ?S4)"
    have h1: "truthy ?cur" by simp
    have h2: "time_now ?E (world ?S0) = (0, 0)" by simp
    have h3: "\<not> (0::rat) - 0 > 170" by simp
    have h4: "scrape_page_content ?E ?cur ?S1 = (Inr ?P, ?S2)" by (simp add: script_scrape)
    have h5: "\<not> prefix ''Error:'' ?P" by simp
    have h6: "get_plan_from_llm ?E ?P ?S2 = (?D, ?S3)" by (simp add: script_plan dict_get_def)
    have h7: "\<not> dict_has ?D ''error''" by (simp add: dict_has_def)
    have h8: "resolve_url ?E ?cur (dict_get ?D ''data_url'') = Inr PNone"
      by (simp add: dict_get_def script_join)
    have h9: "resolve_url ?E ?cur (dict_get ?D ''submit_url'') = Inr (PStr ''https://h/submit'')"
      by (simp add: dict_get_def script_join urljoin_submit)
    have h10: "acquire_data ?E PNone ?P ?S4 = (?P, ?S4)" by (simp add: acquire_data_def)
    have h11: "get_answer_from_llm ?E (dict_get ?D ''question'') ?P ?S4 = (Inr (PInt 29172), ?S5)"
      by (simp add: script_answer dict_get_def)
    have h12: "post_json ?E (PStr ''https://h/submit'')
                 (submission_payload ''me@example.org'' ''s3cret'' ?cur (PInt 29172)) (world ?S5)
               = (Inr (PDict R), world ?S5 + 1)" by simp
    show ?thesis
      by (rule continuation_rule [OF h1 h2 h3 h4 h5 h6 h7 h8 h9 h10 h11 h12])
  qed
  have clean: "\<not> list_ex is_crash (trace s')" if "emits (\<lambda>e. \<not> is_crash e) ?S0 s'" for s'
    using that by (auto simp: emits_def list_ex_iff list_all_iff)
  from run [of "[(''correct'', PBool False), (''reason'', PStr ''Wrong code''),
                 (''url'', PStr ''https://h/p/q2'')]"]
  have a: "fst (loop_iteration
          (script_env (Content ?P) (Inr (PDict ?D)) (Inl ''unused'')
             (Inr (PDict [(''correct'', PBool False), (''reason'', PStr ''Wrong code''),
                          (''url'', PStr ''https://h/p/q2'')])))
          0 ''me@example.org'' ''s3cret'' ?cur ?S0) = Next (PStr ''https://h/p/q2'')"
    by (auto simp: dict_get_def)
  from run [of "[(''correct'', PBool True), (''url'', PNone)]"]
  have b: "\<exists>s'. quiz_loop
          (script_env (Content ?P) (Inr (PDict ?D)) (Inl ''unused'')
             (Inr (PDict [(''correct'', PBool True), (''url'', PNone)])))
          0 ''me@example.org'' ''s3cret'' ?cur ?S0
        = Some s' \<and> last (trace s') = Print Quiz_complete \<and> \<not> list_ex is_crash (trace s')"
    using clean by (auto simp: dict_get_def)
  from run [of "[(''correct'', PBool False)]"]
  have c: "\<exists>s'. quiz_loop
          (script_env (Content ?P) (Inr (PDict ?D)) (Inl ''unused'')
             (Inr (PDict [(''correct'', PBool False)])))
          0 ''me@example.org'' ''s3cret'' ?cur ?S0
        = Some s' \<and> last (trace s') = Print Quiz_ended_wrong \<and> \<not> list_ex is_crash (trace s')"
    using clean by (auto simp: dict_get_def)
  from a b c show ?thesis by blast
qed

text \<open>
  C5. With \<^verbatim>\<open>urljoin\<close> as the spec describes it: against \<^verbatim>\<open>https://h/p/q\<close>, the relative
  \<^verbatim>\<open>data.csv\<close> resolves to \<^verbatim>\<open>https://h/p/data.csv\<close> and the root-relative \<^verbatim>\<open>/data.csv\<close> to
  \<^verbatim>\<open>https://h/data.csv\<close>; a URL with a scheme passes through unchanged; for a base with a
  scheme, as \<^verbatim>\<open>https://h/p/q\<close> is, resolving a resolved URL again leaves it unchanged. In a
  round, the data URL and the submission URL are resolved before anything else is done
  with the plan: every download and every submission of the round goes to the resolved
  URL.
\<close>

theorem url_resolution:
  "urljoin ''https://h/p/q'' ''data.csv'' = ''https://h/p/data.csv''
   \<and> urljoin ''https://h/p/q'' ''/data.csv'' = ''https://h/data.csv''
   \<and> (split_scheme url \<noteq> None \<longrightarrow> urljoin base url = url)
   \<and> (split_scheme base \<noteq> None \<longrightarrow> urljoin base (urljoin base url) = urljoin base url)
   \<and> urljoin ''https://h/p/q'' (urljoin ''https://h/p/q'' url) = urljoin ''https://h/p/q'' url
   \<and> (urljoin_lib env = urljoin_call
        \<and> resolve_url env (PStr base) (dict_get plan ''data_url'') = Inr du
        \<and> resolve_url env (PStr base) (dict_get plan ''submit_url'') = Inr su \<longrightarrow>
        emits (plan_event du su) s (snd (execute_plan env email secret (PStr base) page plan s))
        \<and> (\<forall>u. dict_get plan ''data_url'' = PStr u \<and> u \<noteq> [] \<longrightarrow> du = PStr (urljoin base u))
        \<and> (\<forall>u. dict_get plan ''submit_url'' = PStr u \<and> u \<noteq> [] \<longrightarrow> su = PStr (urljoin base u)))"
proof (intro conjI impI allI)
  show "urljoin ''https://h/p/q'' ''data.csv'' = ''https://h/p/data.csv''"
    by (rule urljoin_relative)
  show "urljoin ''https://h/p/q'' ''/data.csv'' = ''https://h/data.csv''"
    by (rule urljoin_root_relative)
  show "urljoin base url = url" if "split_scheme url \<noteq> None"
    using that by (rule urljoin_absolute)
  show "urljoin base (urljoin base url) = urljoin base url" if "split_scheme base \<noteq> None"
    using that by (rule urljoin_idempotent)
  show "urljoin ''https://h/p/q'' (urljoin ''https://h/p/q'' url) = urljoin ''https://h/p/q'' url"
    by (rule urljoin_idempotent) (simp add: split_scheme_base)
next
  assume a: "urljoin_lib env = urljoin_call
        \<and> resolve_url env (PStr base) (dict_get plan ''data_url'') = Inr du
        \<and> resolve_url env (PStr base) (dict_get plan ''submit_url'') = Inr su"
  then show "emits (plan_event du su) s (snd (execute_plan env email secret (PStr base) page plan s))"
    using execute_plan_emits [of env "PStr base" plan du su email secret page s]
    by (metis prod.collapse)
  show "du = PStr (urljoin base u)" if "dict_get plan ''data_url'' = PStr u \<and> u \<noteq> []" for u
    using a that by (auto simp: resolve_url_def urljoin_call_def)
  show "su = PStr (urljoin base u)" if "dict_get plan ''submit_url'' = PStr u \<and> u \<noteq> []" for u
    using a that by (auto simp: resolve_url_def urljoin_call_def)
qed

text \<open>
  C5 at an absolute URL, at a relative one, and in a round of the scripted world.
\<close>

theorem url_resolution_witness:
  "split_scheme ''https://files.example.org/d/data.csv'' \<noteq> None
   \<and> urljoin ''https://h/p/q'' ''https://files.example.org/d/data.csv''
       = ''https://files.example.org/d/data.csv''
   \<and> split_scheme ''https://h/p/q'' \<noteq> None
   \<and> urljoin ''https://h/p/q'' (urljoin ''https://h/p/q'' ''data.csv'') = ''https://h/p/data.csv''
   \<and> emits (plan_event (PStr ''https://h/p/data.csv'') (PStr ''https://h/submit''))
        \<lparr>world = 7, trace = []\<rparr>
        (snd (execute_plan
           (script_env (Content ''<p>CSV file</p>'') (Inr (PDict [])) (Inl ''unused'') (Inl ''unused''))
           ''me@example.org'' ''s3cret'' (PStr ''https://h/p/q'') ''<p>CSV file</p>''
           [(''question'', PStr ''CSV file''), (''data_url'', PStr ''data.csv''),
            (''submit_url'', PStr ''/submit'')]
           \<lparr>world = 7, trace = []\<rparr>))"
proof -
  let ?E = "script_env (Content ''<p>CSV file</p>'') (Inr (PDict [])) (Inl ''unused'') (Inl ''unused'')"
  let ?D = "[(''question'', PStr ''CSV file''), (''data_url'', PStr ''data.csv''),
            (''submit_url'', PStr ''/submit'')]"
  have s1: "split_scheme ''https://files.example.org/d/data.csv'' \<noteq> None"
    by (simp add: split_scheme_def is_alpha_def is_scheme_char_def is_digit_def)
  have s2: "split_scheme ''https://h/p/q'' \<noteq> None"
    by (simp add: split_scheme_base)
  have r1: "resolve_url ?E (PStr ''https://h/p/q'') (dict_get ?D ''data_url'')
            = Inr (PStr ''https://h/p/data.csv'')"
    by (simp add: dict_get_def script_join urljoin_relative)
  have r2: "resolve_url ?E (PStr ''https://h/p/q'') (dict_get ?D ''submit_url'')
            = Inr (PStr ''https://h/submit'')"
    by (simp add: dict_get_def script_join urljoin_submit)
  have l: "urljoin_lib ?E = urljoin_call" by simp
  note U1 = url_resolution [where url = "''https://files.example.org/d/data.csv''"
        and base = "''https://h/p/q''" and env = ?E and plan = ?D
        and du = "PStr ''https://h/p/data.csv''" and su = "PStr ''https://h/submit''"
        and s = "\<lparr>world = 7, trace = []\<rparr>" and email = "''me@example.org''"
        and secret = "''s3cret''" and page = "''<p>CSV file</p>''"]
  note U2 = url_resolution [where url = "''data.csv''" and base = "''https://h/p/q''"]
  from U1 s1 have a: "urljoin ''https://h/p/q'' ''https://files.example.org/d/data.csv''
       = ''https://files.example.org/d/data.csv''"
    by blast
  from U2 s2 have "urljoin ''https://h/p/q'' (urljoin ''https://h/p/q'' ''data.csv'')
       = urljoin ''https://h/p/q'' ''data.csv''"
    by blast
  then have b: "urljoin ''https://h/p/q'' (urljoin ''https://h/p/q'' ''data.csv'')
       = ''https://h/p/data.csv''"
    by (simp only: urljoin_relative)
  from U1 l r1 r2 have c: "emits (plan_event (PStr ''https://h/p/data.csv'') (PStr ''https://h/submit''))
        \<lparr>world = 7, trace = []\<rparr>
        (snd (execute_plan ?E ''me@example.org'' ''s3cret'' (PStr ''https://h/p/q'')
           ''<p>CSV file</p>'' ?D \<lparr>world = 7, trace = []\<rparr>))"
    by blast
  from s1 a s2 b c show ?thesis by blast
qed

text \<open>
  C8 for a wrong secret and for a matching payload.
\<close>

theorem trigger_authorization_witness:
  "Some (payload_secret \<lparr>payload_email = ''me@example.org'', payload_secret = ''guess'',
                         payload_url = ''https://h/p/q''\<rparr>)
     \<noteq> MY_SECRET \<lparr>MY_SECRET = Some ''s3cret'', MY_EMAIL = Some ''me@example.org''\<rparr>
   \<and> (\<exists>detail. start_quiz \<lparr>MY_SECRET = Some ''s3cret'', MY_EMAIL = Some ''me@example.org''\<rparr>
          \<lparr>payload_email = ''me@example.org'', payload_secret = ''guess'',
            payload_url = ''https://h/p/q''\<rparr> []
        = (Inl (HTTPException 403 detail), []))
   \<and> start_quiz \<lparr>MY_SECRET = Some ''s3cret'', MY_EMAIL = Some ''me@example.org''\<rparr>
          \<lparr>payload_email = ''me@example.org'', payload_secret = ''s3cret'',
            payload_url = ''https://h/p/q''\<rparr> []
        = (Inr \<lparr>api_status = ''accepted'',
                 api_message = ''Quiz task accepted and is processing in the background.''\<rparr>,
           [Run_quiz_solver_background ''me@example.org'' ''s3cret'' ''https://h/p/q''])"
  using trigger_authorization
      [of "\<lparr>payload_email = ''me@example.org'', payload_secret = ''guess'',
            payload_url = ''https://h/p/q''\<rparr>"
          "\<lparr>MY_SECRET = Some ''s3cret'', MY_EMAIL = Some ''me@example.org''\<rparr>" "[]"]
    trigger_authorization
      [of "\<lparr>payload_email = ''me@example.org'', payload_secret = ''s3cret'',
            payload_url = ''https://h/p/q''\<rparr>"
          "\<lparr>MY_SECRET = Some ''s3cret'', MY_EMAIL = Some ''me@example.org''\<rparr>" "[]"]
  by simp


lemma script_filenames:
  "download_filename ''https://h/p/data.csv'' = ''data.csv''"
  "download_filename ''https://h/p/report.pdf?v=2'' = ''report.pdf''"
  "download_filename ''https://h/p/audio.mp3'' = ''audio.mp3''"
  by (simp_all add: download_filename_def)

lemma script_download_failed:
  "download_file (script_env pg pl (Inl e) rs) (PStr u) dir s
   = (Inl e, s\<lparr>world := world s + 1,
                 trace := trace s @ [Call_download_file (PStr u) dir, Http_get u]\<rparr>)"
  by (simp add: download_file_def ask_def emit_def)

lemma script_download:
  "download_file (script_env pg pl (Inr r) rs) (PStr u) dir s
   = (Inr (dir @ ''/'' @ download_filename u),
      s\<lparr>world := world s + 1,
        trace := trace s @ [Call_download_file (PStr u) dir, Http_get u,
                            File_write (dir @ ''/'' @ download_filename u) (response_content r)]\<rparr>)"
  by (simp add: download_file_def ask_def emit_def Let_def)

lemma script_pdf:
  "get_text_from_pdf (script_env pg pl dl rs) p s
   = (Inl ''No /Root object! - Is this really a PDF?'',
      s\<lparr>trace := trace s @ [Call_get_text_from_pdf p]\<rparr>)"
  by (simp add: get_text_from_pdf_def ask_def emit_def)

lemma script_csv:
  "get_text_from_csv (script_env pg pl dl rs) p s
   = (Inr ''0'', s\<lparr>trace := trace s @ [Call_get_text_from_csv p]\<rparr>)"
  by (simp add: get_text_from_csv_def ask_def emit_def)

text \<open>
  C6 in the scripted world: a failed download, a PDF that does not parse, a CSV file and
  an audio file.
\<close>

theorem data_failures_degrade_witness:
  "fst (acquire_data
          (script_env (Content ''<p>CSV file</p>'') (Inr (PDict []))
             (Inl ''All connection attempts failed'') (Inl ''unused''))
          (PStr ''https://h/p/data.csv'') ''<p>CSV file</p>'' \<lparr>world = 7, trace = []\<rparr>)
   = ''Error processing file: All connection attempts failed''
   \<and> prefix
        (trace (snd (acquire_data
            (script_env (Content ''<p>CSV file</p>'') (Inr (PDict []))
               (Inl ''All connection attempts failed'') (Inl ''unused''))
            (PStr ''https://h/p/data.csv'') ''<p>CSV file</p>'' \<lparr>world = 7, trace = []\<rparr>))
         @ [Call_get_answer_from_llm (PStr ''CSV file'')
              ''Error processing file: All connection attempts failed''])
        (trace (snd (execute_plan
            (script_env (Content ''<p>CSV file</p>'') (Inr (PDict []))
               (Inl ''All connection attempts failed'') (Inl ''unused''))
            ''me@example.org'' ''s3cret'' (PStr ''https://h/p/q'') ''<p>CSV file</p>''
            [(''question'', PStr ''CSV file''), (''data_url'', PStr ''data.csv''),
             (''submit_url'', PStr ''/submit'')]
            \<lparr>world = 7, trace = []\<rparr>)))
   \<and> fst (acquire_data
          (script_env (Content ''<p>CSV file</p>'') (Inr (PDict []))
             (Inr \<lparr>response_status = 200, response_content = ''%PDF''\<rparr>) (Inl ''unused''))
          (PStr ''https://h/p/report.pdf?v=2'') ''<p>CSV file</p>'' \<lparr>world = 7, trace = []\<rparr>)
     = ''Error processing file: No /Root object! - Is this really a PDF?''
   \<and> fst (acquire_data
          (script_env (Content ''<p>CSV file</p>'') (Inr (PDict []))
             (Inr \<lparr>response_status = 200, response_content = ''0''\<rparr>) (Inl ''unused''))
          (PStr ''https://h/p/data.csv'') ''<p>CSV file</p>'' \<lparr>world = 7, trace = []\<rparr>)
     = ''0''
   \<and> fst (acquire_data
          (script_env (Content ''<p>CSV file</p>'') (Inr (PDict []))
             (Inr \<lparr>response_status = 200, response_content = ''ID3''\<rparr>) (Inl ''unused''))
          (PStr ''https://h/p/audio.mp3'') ''<p>CSV file</p>'' \<lparr>world = 7, trace = []\<rparr>)
     = ''File downloaded to: temp_data/audio.mp3''"
proof -
  let ?P = "''<p>CSV file</p>''"
  let ?S = "\<lparr>world = 7 :: nat, trace = []\<rparr>"
  let ?D = "[(''question'', PStr ''CSV file''), (''data_url'', PStr ''data.csv''),
             (''submit_url'', PStr ''/submit'')]"
  let ?E1 = "script_env (Content ?P) (Inr (PDict [])) (Inl ''All connection attempts failed'')
               (Inl ''unused'')"
  let ?E2 = "script_env (Content ?P) (Inr (PDict []))
               (Inr \<lparr>response_status = 200, response_content = ''%PDF''\<rparr>) (Inl ''unused'')"
  let ?E3 = "script_env (Content ?P) (Inr (PDict []))
               (Inr \<lparr>response_status = 200, response_content = ''0''\<rparr>) (Inl ''unused'')"
  let ?E4 = "script_env (Content ?P) (Inr (PDict []))
               (Inr \<lparr>response_status = 200, response_content = ''ID3''\<rparr>) (Inl ''unused'')"
  have t: "truthy (PStr ''https://h/p/data.csv'')" "truthy (PStr ''https://h/p/report.pdf?v=2'')"
    "truthy (PStr ''https://h/p/audio.mp3'')"
    by simp_all
  have r1: "resolve_url ?E1 (PStr ''https://h/p/q'') (dict_get ?D ''data_url'')
            = Inr (PStr ''https://h/p/data.csv'')"
    by (simp add: dict_get_def script_join urljoin_relative)
  have r2: "resolve_url ?E1 (PStr ''https://h/p/q'') (dict_get ?D ''submit_url'')
            = Inr (PStr ''https://h/submit'')"
    by (simp add: dict_get_def script_join urljoin_submit)
  note W1 = data_failures_degrade [OF t(1) script_download_failed,
      where pg1 = "Content ?P" and pl1 = "Inr (PDict [])" and rs1 = "Inl ''unused''"
        and e1 = "''All connection attempts failed''" and s = ?S
        and e = "''All connection attempts failed''" and page = ?P
        and cur = "PStr ''https://h/p/q''" and plan = ?D and su = "PStr ''https://h/submit''"
        and email = "''me@example.org''" and secret = "''s3cret''"]
  have a1': "fst (acquire_data ?E1 (PStr ''https://h/p/data.csv'') ?P ?S)
      = ''Error processing file: All connection attempts failed''"
    using W1 [THEN conjunct1] by simp
  from W1 r1 r2 have a2: "prefix
        (trace (snd (acquire_data ?E1 (PStr ''https://h/p/data.csv'') ?P ?S))
         @ [Call_get_answer_from_llm (dict_get ?D ''question'')
              (fst (acquire_data ?E1 (PStr ''https://h/p/data.csv'') ?P ?S))])
        (trace (snd (execute_plan ?E1 ''me@example.org'' ''s3cret'' (PStr ''https://h/p/q'') ?P ?D ?S)))"
    by blast
  note W2 = data_failures_degrade [OF t(2) script_download,
      where pg1 = "Content ?P" and pl1 = "Inr (PDict [])" and rs1 = "Inl ''unused''"
        and r1 = "\<lparr>response_status = 200, response_content = ''%PDF''\<rparr>" and s = ?S
        and path = "''temp_data/report.pdf''" and page = ?P
        and e = "''No /Root object! - Is this really a PDF?''",
      unfolded script_filenames]
  have a3: "fst (acquire_data ?E2 (PStr ''https://h/p/report.pdf?v=2'') ?P ?S)
     = ''Error processing file: No /Root object! - Is this really a PDF?''"
    using W2 [THEN conjunct2, THEN conjunct1] by (auto simp: script_pdf suffix_to_prefix)
  note W3 = data_failures_degrade [OF t(1) script_download,
      where pg1 = "Content ?P" and pl1 = "Inr (PDict [])" and rs1 = "Inl ''unused''"
        and r1 = "\<lparr>response_status = 200, response_content = ''0''\<rparr>" and s = ?S
        and path = "''temp_data/data.csv''" and page = ?P and t = "''0''",
      unfolded script_filenames]
  have a4: "fst (acquire_data ?E3 (PStr ''https://h/p/data.csv'') ?P ?S) = ''0''"
    using W3 [THEN conjunct2, THEN conjunct2, THEN conjunct2, THEN conjunct2, THEN conjunct1]
    by (auto simp: script_csv suffix_to_prefix)
  note W4 = data_failures_degrade [OF t(3) script_download,
      where pg1 = "Content ?P" and pl1 = "Inr (PDict [])" and rs1 = "Inl ''unused''"
        and r1 = "\<lparr>response_status = 200, response_content = ''ID3''\<rparr>" and s = ?S
        and path = "''temp_data/audio.mp3''" and page = ?P,
      unfolded script_filenames]
  have a5: "fst (acquire_data ?E4 (PStr ''https://h/p/audio.mp3'') ?P ?S)
     = ''File downloaded to: temp_data/audio.mp3''"
    using W4 [THEN conjunct2, THEN conjunct2, THEN conjunct2, THEN conjunct2, THEN conjunct2,
              THEN conjunct1]
    by (auto simp: suffix_to_prefix)
  from a2 have a2': "prefix
        (trace (snd (acquire_data ?E1 (PStr ''https://h/p/data.csv'') ?P ?S))
         @ [Call_get_answer_from_llm (PStr ''CSV file'')
              ''Error processing file: All connection attempts failed''])
        (trace (snd (execute_plan ?E1 ''me@example.org'' ''s3cret'' (PStr ''https://h/p/q'') ?P ?D ?S)))"
    unfolding a1' by (simp add: dict_get_def)
  from a1' a2' a3 a4 a5 show ?thesis by blast
qed


text \<open>
  C9 in the scripted world: a plan with a \<^verbatim>\<open>submit_url\<close> and the key \<^verbatim>\<open>error\<close>, and the same
  plan without the key.
\<close>

theorem planning_failure_by_key_witness:
  "dict_has [(''error'', PStr ''none''), (''question'', PStr ''Q. Get the secret code''),
             (''submit_url'', PStr ''/submit'')] ''error''
   \<and> truthy (dict_get [(''error'', PStr ''none''), (''question'', PStr ''Q. Get the secret code''),
                        (''submit_url'', PStr ''/submit'')] ''submit_url'')
   \<and> round_body
        (script_env (Content ''<p>Q. Get the secret code</p>'')
           (Inr (PDict [(''error'', PStr ''none''), (''question'', PStr ''Q. Get the secret code''),
                        (''submit_url'', PStr ''/submit'')]))
           (Inl ''unused'') (Inl ''unused''))
        ''me@example.org'' ''s3cret'' (PStr ''https://h/p/q'') \<lparr>world = 0, trace = []\<rparr>
      = (Inr Break,
         \<lparr>world = 7,
          trace = [Call_scrape_page_content (PStr ''https://h/p/q''),
                   Call_get_plan_from_llm ''<p>Q. Get the secret code</p>'',
                   LLM_request (PlanRequest ''<p>Q. Get the secret code</p>''),
                   Print (Failed_to_get_plan (PStr ''none''))]\<rparr>)
   \<and> \<not> dict_has [(''question'', PStr ''Q. Get the secret code''),
               (''submit_url'', PStr ''/submit'')] ''error''
   \<and> \<not> list_ex is_plan_failure
         (trace (snd (round_body
            (script_env (Content ''<p>Q. Get the secret code</p>'')
               (Inr (PDict [(''question'', PStr ''Q. Get the secret code''),
                            (''submit_url'', PStr ''/submit'')]))
               (Inl ''unused'') (Inl ''unused''))
            ''me@example.org'' ''s3cret'' (PStr ''https://h/p/q'') \<lparr>world = 0, trace = []\<rparr>)))"
proof -
  let ?P = "''<p>Q. Get the secret code</p>''"
  let ?D1 = "[(''error'', PStr ''none''), (''question'', PStr ''Q. Get the secret code''),
              (''submit_url'', PStr ''/submit'')]"
  let ?D2 = "[(''question'', PStr ''Q. Get the secret code''), (''submit_url'', PStr ''/submit'')]"
  let ?E1 = "script_env (Content ?P) (Inr (PDict ?D1)) (Inl ''unused'') (Inl ''unused'')"
  let ?E2 = "script_env (Content ?P) (Inr (PDict ?D2)) (Inl ''unused'') (Inl ''unused'')"
  let ?cur = "PStr ''https://h/p/q''"
  let ?S0 = "\<lparr>world = 0 :: nat, trace = []\<rparr>"
  let ?S1 = "\<lparr>world = 2 :: nat, trace = [Call_scrape_page_content ?cur]\<rparr>"
  let ?S2 = "\<lparr>world = 7 :: nat,
             trace = [Call_scrape_page_content ?cur, Call_get_plan_from_llm ?P,
                      LLM_request (PlanRequest ?P)]\<rparr>"
  have d1: "dict_has ?D1 ''error''" and t1: "truthy (dict_get ?D1 ''submit_url'')"
    and d2: "\<not> dict_has ?D2 ''error''" and t2: "truthy (dict_get ?D2 ''submit_url'')"
    by (simp_all add: dict_has_def dict_get_def)
  have np: "\<not> prefix ''Error:'' ?P" by simp
  have sc1: "scrape_page_content ?E1 ?cur ?S0 = (Inr ?P, ?S1)"
    and sc2: "scrape_page_content ?E2 ?cur ?S0 = (Inr ?P, ?S1)"
    by (simp_all add: script_scrape)
  have pl1: "get_plan_from_llm ?E1 ?P ?S1 = (?D1, ?S2)"
    using script_plan [OF t1, of "Content ?P" "Inl ''unused''" "Inl ''unused''" ?P ?S1] by simp
  have pl2: "get_plan_from_llm ?E2 ?P ?S1 = (?D2, ?S2)"
    using script_plan [OF t2, of "Content ?P" "Inl ''unused''" "Inl ''unused''" ?P ?S1] by simp
  note W1 = planning_failure_by_key [OF sc1 np pl1, where email = "''me@example.org''"
      and secret = "''s3cret''"]
  note W2 = planning_failure_by_key [OF sc2 np pl2, where email = "''me@example.org''"
      and secret = "''s3cret''"]
  have a: "round_body ?E1 ''me@example.org'' ''s3cret'' ?cur ?S0
      = (Inr Break,
         \<lparr>world = 7,
          trace = [Call_scrape_page_content ?cur, Call_get_plan_from_llm ?P,
                   LLM_request (PlanRequest ?P), Print (Failed_to_get_plan (PStr ''none''))]\<rparr>)"
    using W1 [THEN conjunct1] d1 by (simp add: emit_def dict_get_def)
  have "emits (\<lambda>e. \<not> is_plan_failure e) ?S2
          (snd (round_body ?E2 ''me@example.org'' ''s3cret'' ?cur ?S0))"
    using W2 [THEN conjunct2, THEN conjunct1] d2 by blast
  then have b: "\<not> list_ex is_plan_failure
         (trace (snd (round_body ?E2 ''me@example.org'' ''s3cret'' ?cur ?S0)))"
    by (auto simp: emits_def list_ex_iff list_all_iff)
  from d1 t1 a d2 b show ?thesis by blast
qed

text \<open>
  C10 in the scripted world: the server answers 404 and the body is saved and read as CSV.
\<close>

theorem download_ignores_status_witness:
  "download_file
     (script_env (Content ''<p>CSV file</p>'') (Inr (PDict []))
        (Inr \<lparr>response_status = 404, response_content = ''<h1>Not Found</h1>''\<rparr>) (Inl ''unused''))
     (PStr ''https://h/p/data.csv'') ''temp_data'' \<lparr>world = 7, trace = []\<rparr>
   = (Inr ''temp_data/data.csv'',
      \<lparr>world = 8,
       trace = [Call_download_file (PStr ''https://h/p/data.csv'') ''temp_data'',
                Http_get ''https://h/p/data.csv'',
                File_write ''temp_data/data.csv'' ''<h1>Not Found</h1>'']\<rparr>)
   \<and> acquire_data
       (script_env (Content ''<p>CSV file</p>'') (Inr (PDict []))
          (Inr \<lparr>response_status = 404, response_content = ''<h1>Not Found</h1>''\<rparr>) (Inl ''unused''))
       (PStr ''https://h/p/data.csv'') ''<p>CSV file</p>'' \<lparr>world = 7, trace = []\<rparr>
     = (''0'',
        \<lparr>world = 8,
         trace = [Print (Data_url_found (PStr ''https://h/p/data.csv'')),
                  Call_download_file (PStr ''https://h/p/data.csv'') ''temp_data'',
                  Http_get ''https://h/p/data.csv'',
                  File_write ''temp_data/data.csv'' ''<h1>Not Found</h1>'',
                  Call_get_text_from_csv ''temp_data/data.csv'']\<rparr>)"
proof -
  let ?R = "\<lparr>response_status = 404, response_content = ''<h1>Not Found</h1>''\<rparr>"
  let ?E = "script_env (Content ''<p>CSV file</p>'') (Inr (PDict [])) (Inr ?R) (Inl ''unused'')"
  have h1: "makedirs ?E ''temp_data'' 7 = (None, 7)" by simp
  have h2: "http_get ?E ''https://h/p/data.csv'' 7 = (Inr ?R, 8)" by simp
  have h3: "write_file ?E ''temp_data/data.csv'' (response_content ?R) 8 = (None, 8)" by simp
  have h4: "''temp_data/data.csv'' = ''temp_data'' @ ''/'' @ download_filename ''https://h/p/data.csv''"
    by (simp add: script_filenames)
  note W = download_ignores_status [OF h1 h2 h3 h4, where page = "''<p>CSV file</p>''"]
  have a: "download_file ?E (PStr ''https://h/p/data.csv'') ''temp_data'' \<lparr>world = 7, trace = []\<rparr>
     = (Inr ''temp_data/data.csv'',
        \<lparr>world = 8,
         trace = [Call_download_file (PStr ''https://h/p/data.csv'') ''temp_data'',
                  Http_get ''https://h/p/data.csv'',
                  File_write ''temp_data/data.csv'' ''<h1>Not Found</h1>'']\<rparr>)"
    using W [THEN conjunct1, rule_format, of "\<lparr>world = 7, trace = []\<rparr>"] by simp
  have b: "acquire_data ?E (PStr ''https://h/p/data.csv'') ''<p>CSV file</p>'' \<lparr>world = 7, trace = []\<rparr>
     = (''0'',
        \<lparr>world = 8,
         trace = [Print (Data_url_found (PStr ''https://h/p/data.csv'')),
                  Call_download_file (PStr ''https://h/p/data.csv'') ''temp_data'',
                  Http_get ''https://h/p/data.csv'',
                  File_write ''temp_data/data.csv'' ''<h1>Not Found</h1>'',
                  Call_get_text_from_csv ''temp_data/data.csv'']\<rparr>)"
    using W [THEN conjunct2, rule_format, of "\<lparr>world = 7, trace = []\<rparr>"]
    by (simp add: suffix_to_prefix script_csv)
  from a b show ?thesis by blast
qed

end
